theory Spec2Isabelle
  imports Complex_Main "HOL-Library.List_Lexorder" "HOL-Library.Char_ord" "HOL-Library.Option_ord"
    "HOL-Library.Multiset"
begin

section \<open>Python values and text\<close>

text \<open>
  The handlers of \<^verbatim>\<open>backend/server.py\<close> work on untyped Python values: the object that
  \<^verbatim>\<open>json.loads\<close> returns for the model's reply, and the documents that the MongoDB driver
  returns. A dictionary keeps its insertion order, so it is an association list; a lookup
  takes the first entry of a key. A float is kept as a real number (non-finite floats
  are outside the model).
\<close>

type_synonym datetime = int

datatype pyval =
    PNone
  | PBool bool
  | PInt int
  | PFloat real
  | PStr string
  | PDatetime datetime
  | PList "pyval list"
  | PDict "(string \<times> pyval) list"

type_synonym pydict = "(string \<times> pyval) list"

definition dget :: "pydict \<Rightarrow> string \<Rightarrow> pyval option" where
  "dget d k = map_of d k"

definition dpop :: "pydict \<Rightarrow> string \<Rightarrow> pydict" where
  "dpop d k = filter (\<lambda>kv. fst kv \<noteq> k) d"

fun dset :: "pydict \<Rightarrow> string \<Rightarrow> pyval \<Rightarrow> pydict" where
  "dset [] k v = [(k, v)]"
| "dset ((k', v') # d) k v = (if k' = k then (k, v) # d else (k', v') # dset d k v)"

text \<open>
  Text is a list of characters below code point 256. \<^verbatim>\<open>str.strip()\<close> removes the
  characters that \<^verbatim>\<open>str.isspace\<close> accepts from both ends; below 256 these are the code
  points 9 to 13, 28 to 32, 133 and 160.
\<close>

definition isspace :: "char \<Rightarrow> bool" where
  "isspace c = (of_char c \<in> {9, 10, 11, 12, 13, 28, 29, 30, 31, 32, 133, 160 :: nat})"

definition strip :: "string \<Rightarrow> string" where
  "strip s = rev (dropWhile isspace (rev (dropWhile isspace s)))"

definition startswith :: "string \<Rightarrow> string \<Rightarrow> bool" where
  "startswith s p = (take (length p) s = p)"

definition endswith :: "string \<Rightarrow> string \<Rightarrow> bool" where
  "endswith s p = (length p \<le> length s \<and> drop (length s - length p) s = p)"

section \<open>Cleaning the model's reply\<close>

text \<open>
  Lines 156 to 163 of \<^verbatim>\<open>analyze_medical_report\<close>:
  \<^verbatim>\<open>
  cleaned_response = response.strip()
  if cleaned_response.startswith("```json"):
      cleaned_response = cleaned_response[7:]
  if cleaned_response.startswith("```"):
      cleaned_response = cleaned_response[3:]
  if cleaned_response.endswith("```"):
      cleaned_response = cleaned_response[:-3]
  cleaned_response = cleaned_response.strip()
  \<close>
  The three tests are three separate \<^verbatim>\<open>if\<close> statements, run one after the other.
\<close>

definition clean_response :: "string \<Rightarrow> string" where
  "clean_response response =
     (let c0 = strip response;
          c1 = (if startswith c0 ''```json'' then drop 7 c0 else c0);
          c2 = (if startswith c1 ''```'' then drop 3 c1 else c1);
          c3 = (if endswith c2 ''```'' then take (length c2 - 3) c2 else c2)
      in strip c3)"

text \<open>
  The normalizer as the specification words it: one leading marker, tagged or bare, and
  one trailing marker, each tried once.
\<close>

definition spec_strip_single_fence :: "string \<Rightarrow> string" where
  "spec_strip_single_fence response =
     (let c0 = strip response;
          c1 = (if startswith c0 ''```json'' then drop 7 c0
                else if startswith c0 ''```'' then drop 3 c0 else c0);
          c2 = (if endswith c1 ''```'' then take (length c1 - 3) c1 else c1)
      in strip c2)"


section \<open>The data model\<close>

text \<open>
  The pydantic models of lines 62 to 94. The identifier fields are both called
  \<^verbatim>\<open>id\<close> in the source; they are \<open>report_id\<close> (of an AnalyzedReport) and
  \<open>saved_id\<close> (of a SavedReport) here, the field \<^verbatim>\<open>value\<close> is \<open>pvalue\<close>, and the
  fields of the request carry the prefix \<open>req_\<close>, since a field name is a constant of
  the theory.
\<close>

record ReportAnalysisRequest =
  req_image_base64 :: string
  req_language :: string

record HealthParameter =
  name :: string
  pvalue :: string
  unit :: string
  normal_range :: string
  status :: string
  explanation :: string
  hindi_explanation :: "string option"

record AnalyzedReport =
  report_id :: string
  report_type :: string
  title :: string
  summary :: string
  hindi_summary :: "string option"
  parameters :: "HealthParameter list"
  health_tips :: "string list"
  hindi_health_tips :: "string list option"
  overall_status :: string
  created_at :: datetime
  image_base64 :: "string option"

record SavedReport =
  saved_id :: string
  report_data :: AnalyzedReport
  saved_at :: datetime

record CompareReportsRequest =
  report_ids :: "string list"

section \<open>Exceptions and responses\<close>

text \<open>
  Every handler turns an exception into an \<^verbatim>\<open>HTTPException\<close>; where the detail is
  \<^verbatim>\<open>str(e)\<close> the exception itself is kept, so that no message text is invented.
\<close>

datatype pyexn =
    AttributeError string
  | TypeError string
  | ValueError string
  | JSONDecodeError string
  | RecursionError string
  | UnboundLocalError string
  | ValidationError string
  | ServiceError string

text \<open>The test of the clause \<^verbatim>\<open>except json.JSONDecodeError\<close>.\<close>

fun is_JSONDecodeError :: "pyexn \<Rightarrow> bool" where
  "is_JSONDecodeError (JSONDecodeError _) = True"
| "is_JSONDecodeError _ = False"

datatype detail =
    Text string
  | StrOf pyexn
  | TextStrOf string pyexn

datatype http_error = HTTPException nat detail

text \<open>What a helper raises: an \<^verbatim>\<open>HTTPException\<close> or another exception.\<close>

datatype raised = Http http_error | Exn pyexn

fun type_name :: "pyval \<Rightarrow> string" where
  "type_name PNone = ''NoneType''"
| "type_name (PBool _) = ''bool''"
| "type_name (PInt _) = ''int''"
| "type_name (PFloat _) = ''float''"
| "type_name (PStr _) = ''str''"
| "type_name (PDatetime _) = ''datetime.datetime''"
| "type_name (PList _) = ''list''"
| "type_name (PDict _) = ''dict''"

definition no_attribute :: "pyval \<Rightarrow> string \<Rightarrow> pyexn" where
  "no_attribute v a =
     AttributeError ([CHR 0x27] @ type_name v @ [CHR 0x27] @ '' object has no attribute '' @
                     [CHR 0x27] @ a @ [CHR 0x27])"

definition not_iterable :: "pyval \<Rightarrow> pyexn" where
  "not_iterable v = TypeError ([CHR 0x27] @ type_name v @ [CHR 0x27] @ '' object is not iterable'')"

text \<open>\<^verbatim>\<open>d.get(k, default)\<close> on a dictionary.\<close>

definition get_or :: "pydict \<Rightarrow> string \<Rightarrow> pyval \<Rightarrow> pyval" where
  "get_or d k dflt = (case dget d k of None \<Rightarrow> dflt | Some v \<Rightarrow> v)"

text \<open>What a \<^verbatim>\<open>for\<close> loop or a comprehension iterates over.\<close>

fun iter_items :: "pyval \<Rightarrow> pyexn + pyval list" where
  "iter_items (PList xs) = Inr xs"
| "iter_items (PDict kvs) = Inr (map (\<lambda>kv. PStr (fst kv)) kvs)"
| "iter_items (PStr s) = Inr (map (\<lambda>c. PStr [c]) s)"
| "iter_items v = Inl (not_iterable v)"

text \<open>A loop body that may raise, run over a list: the first exception ends the loop.\<close>

fun map_exn :: "('a \<Rightarrow> 'e + 'b) \<Rightarrow> 'a list \<Rightarrow> 'e + 'b list" where
  "map_exn f [] = Inr []"
| "map_exn f (x # xs) =
     (case f x of
        Inl e \<Rightarrow> Inl e
      | Inr y \<Rightarrow> (case map_exn f xs of Inl e \<Rightarrow> Inl e | Inr ys \<Rightarrow> Inr (y # ys)))"

subsection \<open>Field validation of the pydantic models\<close>

text \<open>
  A \<^verbatim>\<open>str\<close> field takes a string and nothing else, an \<^verbatim>\<open>Optional\<close> field also
  \<^verbatim>\<open>None\<close>, a \<^verbatim>\<open>List[str]\<close> field a list of strings. \<open>None\<close> is the validation error.
\<close>

fun v_str :: "pyval \<Rightarrow> string option" where
  "v_str (PStr s) = Some s"
| "v_str _ = None"

fun v_opt_str :: "pyval \<Rightarrow> string option option" where
  "v_opt_str PNone = Some None"
| "v_opt_str (PStr s) = Some (Some s)"
| "v_opt_str _ = None"

fun v_list_str :: "pyval \<Rightarrow> string list option" where
  "v_list_str (PList xs) = those (map v_str xs)"
| "v_list_str _ = None"

fun v_opt_list_str :: "pyval \<Rightarrow> string list option option" where
  "v_opt_list_str PNone = Some None"
| "v_opt_list_str v = map_option Some (v_list_str v)"

section \<open>The environment of a request and the state of the process\<close>

text \<open>
  What a handler reads from outside the program is an input of the model: the
  configuration, the reply of the LLM API to the one message sent
  (the exception that the gateway raises, or the content that it returns, which may be
  \<^verbatim>\<open>None\<close>), the library function \<^verbatim>\<open>json.loads\<close> (the exception that it raises on a
  text, a \<^verbatim>\<open>JSONDecodeError\<close> or another one such as a \<^verbatim>\<open>RecursionError\<close>, or the
  value that it returns), \<^verbatim>\<open>datetime.isoformat\<close> and \<^verbatim>\<open>datetime.fromisoformat\<close>
  (\<open>None\<close> where it raises), pydantic's conversion of a value that is not a datetime
  into one, the identifiers that \<^verbatim>\<open>uuid.uuid4\<close> draws during the request (by draw
  number), the clock, and whether the calls to MongoDB raise during this request
  (\<open>Some msg\<close>) or answer (\<open>None\<close>).
\<close>

datatype llm_reply = Raises pyexn | Returns "string option"

record env =
  EMERGENT_LLM_KEY :: "string option"
  send_message :: "string \<Rightarrow> string \<Rightarrow> llm_reply"
  loads :: "string \<Rightarrow> pyexn + pyval"
  isoformat :: "datetime \<Rightarrow> string"
  fromisoformat :: "string \<Rightarrow> datetime option"
  coerce_datetime :: "pyval \<Rightarrow> datetime option"
  uuid4 :: "nat \<Rightarrow> string"
  utcnow :: datetime
  db_error :: "string option"

text \<open>
  The module's globals (lines 27 to 30): \<open>db\<close> is \<open>None\<close> when no \<^verbatim>\<open>MONGO_URL\<close> is
  configured and otherwise holds the documents of the \<^verbatim>\<open>reports\<close> collection, in their
  natural order. \<open>llm_calls\<close> counts the requests sent to the LLM API.
\<close>

record world =
  USE_MONGODB :: bool
  db :: "pydict list option"
  MEMORY_REPORTS :: "SavedReport list"
  llm_calls :: nat

section \<open>Analysis\<close>

text \<open>
  \<^verbatim>\<open>analyze_medical_report\<close> (lines 97 to 174). The key is checked before the
  \<^verbatim>\<open>try\<close>; inside it one message is sent, the reply is logged (\<^verbatim>\<open>response[:500]\<close>,
  which raises on \<^verbatim>\<open>None\<close>), cleaned and parsed. The first \<^verbatim>\<open>except\<close> clause takes a
  \<^verbatim>\<open>JSONDecodeError\<close> only, and its second log line reads \<^verbatim>\<open>response\<close>: when the
  gateway raised that exception the variable is not bound, and the
  \<^verbatim>\<open>UnboundLocalError\<close> leaves the function (it is kept with the name of the variable,
  the wording of its message being the interpreter's). Every other exception is taken
  by the second clause.
\<close>

definition analyze_medical_report ::
  "env \<Rightarrow> world \<Rightarrow> string \<Rightarrow> string \<Rightarrow> (raised + pyval) \<times> world" where
  "analyze_medical_report e w img language =
     (if EMERGENT_LLM_KEY e = None \<or> EMERGENT_LLM_KEY e = Some []
      then (Inl (Http (HTTPException 500 (Text ''LLM API key not configured''))), w)
      else
        (let w' = w\<lparr>llm_calls := llm_calls w + 1\<rparr> in
         case send_message e img language of
           Raises ex \<Rightarrow>
             (if is_JSONDecodeError ex
              then (Inl (Exn (UnboundLocalError ''response'')), w')
              else (Inl (Http (HTTPException 500 (TextStrOf ''Error analyzing report: '' ex))), w'))
         | Returns None \<Rightarrow>
             (Inl (Http (HTTPException 500 (TextStrOf ''Error analyzing report: ''
                     (TypeError ([CHR 0x27] @ ''NoneType'' @ [CHR 0x27] @
                                 '' object is not subscriptable''))))), w')
         | Returns (Some response) \<Rightarrow>
             (case loads e (clean_response response) of
                Inl ex \<Rightarrow>
                  (if is_JSONDecodeError ex
                   then (Inl (Http (HTTPException 500 (Text ''Failed to parse AI response''))), w')
                   else (Inl (Http (HTTPException 500
                                      (TextStrOf ''Error analyzing report: '' ex))), w'))
              | Inr result \<Rightarrow> (Inr result, w'))))"

text \<open>
  One element of the comprehension of lines 218 to 229: \<^verbatim>\<open>p.get\<close> needs a dictionary,
  and the constructor validates the seven values.
\<close>

definition make_parameter :: "pyval \<Rightarrow> pyexn + HealthParameter" where
  "make_parameter pv =
     (case pv of
        PDict p \<Rightarrow>
          (case (v_str (get_or p ''name'' (PStr ''Unknown'')),
                 v_str (get_or p ''value'' (PStr ''N/A'')),
                 v_str (get_or p ''unit'' (PStr [])),
                 v_str (get_or p ''normal_range'' (PStr ''N/A'')),
                 v_str (get_or p ''status'' (PStr ''normal'')),
                 v_str (get_or p ''explanation'' (PStr [])),
                 v_opt_str (get_or p ''hindi_explanation'' PNone)) of
             (Some n, Some v, Some u, Some r, Some s, Some x, Some h) \<Rightarrow>
               Inr \<lparr>name = n, pvalue = v, unit = u, normal_range = r, status = s,
                    explanation = x, hindi_explanation = h\<rparr>
           | _ \<Rightarrow> Inl (ValidationError ''HealthParameter''))
      | _ \<Rightarrow> Inl (no_attribute pv ''get''))"

text \<open>
  Lines 217 to 241: the parameters first, then the report. The identifier is the second
  draw of the request (the first is the session identifier of the chat), the creation
  time is the clock's, and the image is kept as its first 100 characters and three dots.
\<close>

definition make_report :: "env \<Rightarrow> string \<Rightarrow> pyval \<Rightarrow> pyexn + AnalyzedReport" where
  "make_report e img analysis =
     (case analysis of
        PDict a \<Rightarrow>
          (case iter_items (get_or a ''parameters'' (PList [])) of
             Inl ex \<Rightarrow> Inl ex
           | Inr items \<Rightarrow>
               (case map_exn make_parameter items of
                  Inl ex \<Rightarrow> Inl ex
                | Inr ps \<Rightarrow>
                    (case (v_str (get_or a ''report_type'' (PStr ''blood_test'')),
                           v_str (get_or a ''title'' (PStr ''Medical Report'')),
                           v_str (get_or a ''summary'' (PStr ''Report analyzed successfully'')),
                           v_opt_str (get_or a ''hindi_summary'' PNone),
                           v_list_str (get_or a ''health_tips'' (PList [])),
                           v_opt_list_str (get_or a ''hindi_health_tips'' PNone),
                           v_str (get_or a ''overall_status'' (PStr ''moderate''))) of
                       (Some rt, Some ti, Some su, Some hs, Some ht, Some hht, Some os) \<Rightarrow>
                         Inr \<lparr>report_id = uuid4 e 1, report_type = rt, title = ti, summary = su,
                              hindi_summary = hs, parameters = ps, health_tips = ht,
                              hindi_health_tips = hht, overall_status = os,
                              created_at = utcnow e,
                              image_base64 = Some (take 100 img @ ''...'')\<rparr>
                     | _ \<Rightarrow> Inl (ValidationError ''AnalyzedReport''))))
      | _ \<Rightarrow> Inl (no_attribute analysis ''get''))"

text \<open>\<^verbatim>\<open>analyze_report\<close> (lines 206 to 249).\<close>

definition analyze_report ::
  "env \<Rightarrow> world \<Rightarrow> ReportAnalysisRequest \<Rightarrow> (http_error + AnalyzedReport) \<times> world" where
  "analyze_report e w request =
     (if req_image_base64 request = []
      then (Inl (HTTPException 400 (Text ''No image provided'')), w)
      else
        (case analyze_medical_report e w (req_image_base64 request) (req_language request) of
           (Inl (Http err), w') \<Rightarrow> (Inl err, w')
         | (Inl (Exn ex), w') \<Rightarrow> (Inl (HTTPException 500 (StrOf ex)), w')
         | (Inr analysis, w') \<Rightarrow>
             (case make_report e (req_image_base64 request) analysis of
                Inl ex \<Rightarrow> (Inl (HTTPException 500 (StrOf ex)), w')
              | Inr report \<Rightarrow> (Inr report, w'))))"

section \<open>The durable backend\<close>

text \<open>
  The \<^verbatim>\<open>reports\<close> collection is a list of documents. A filter \<^verbatim>\<open>{"id": x}\<close> selects
  the documents whose \<^verbatim>\<open>id\<close> field is \<open>x\<close> or an array that holds \<open>x\<close>;
  \<^verbatim>\<open>find_one\<close> returns the first of them and \<^verbatim>\<open>delete_one\<close> removes it.
  \<^verbatim>\<open>find().sort("saved_at", -1).to_list(100)\<close> returns the first 100 documents in
  descending order of the field; the model orders text values as the server does (by
  their characters), places a document whose field is missing below all text, and is
  not faithful for a document whose field is of another type.
\<close>

definition matches_id :: "string \<Rightarrow> pydict \<Rightarrow> bool" where
  "matches_id x d =
     (case dget d ''id'' of
        Some (PStr s) \<Rightarrow> s = x
      | Some (PList xs) \<Rightarrow> PStr x \<in> set xs
      | _ \<Rightarrow> False)"

fun remove_first :: "('a \<Rightarrow> bool) \<Rightarrow> 'a list \<Rightarrow> 'a list" where
  "remove_first P [] = []"
| "remove_first P (x # xs) = (if P x then xs else x # remove_first P xs)"

definition saved_at_key :: "pydict \<Rightarrow> string option" where
  "saved_at_key d = (case dget d ''saved_at'' of Some (PStr s) \<Rightarrow> Some s | _ \<Rightarrow> None)"

definition find_sorted :: "pydict list \<Rightarrow> pydict list" where
  "find_sorted docs = take 100 (rev (sort_key saved_at_key docs))"

section \<open>Writing and reading documents\<close>

text \<open>
  \<^verbatim>\<open>report_dict\<close> of lines 259 to 261: \<^verbatim>\<open>model_dump()\<close> lists the fields in the order
  of their declaration, and the two timestamps are replaced by their ISO text.
\<close>

definition dump_opt_str :: "string option \<Rightarrow> pyval" where
  "dump_opt_str v = (case v of None \<Rightarrow> PNone | Some s \<Rightarrow> PStr s)"

definition dump_parameter :: "HealthParameter \<Rightarrow> pyval" where
  "dump_parameter p =
     PDict [(''name'', PStr (name p)), (''value'', PStr (pvalue p)), (''unit'', PStr (unit p)),
            (''normal_range'', PStr (normal_range p)), (''status'', PStr (status p)),
            (''explanation'', PStr (explanation p)),
            (''hindi_explanation'', dump_opt_str (hindi_explanation p))]"

definition dump_report :: "env \<Rightarrow> AnalyzedReport \<Rightarrow> pyval" where
  "dump_report e r =
     PDict [(''id'', PStr (report_id r)), (''report_type'', PStr (report_type r)),
            (''title'', PStr (title r)), (''summary'', PStr (summary r)),
            (''hindi_summary'', dump_opt_str (hindi_summary r)),
            (''parameters'', PList (map dump_parameter (parameters r))),
            (''health_tips'', PList (map PStr (health_tips r))),
            (''hindi_health_tips'',
               (case hindi_health_tips r of None \<Rightarrow> PNone | Some ts \<Rightarrow> PList (map PStr ts))),
            (''overall_status'', PStr (overall_status r)),
            (''created_at'', PStr (isoformat e (created_at r))),
            (''image_base64'', dump_opt_str (image_base64 r))]"

definition report_dict :: "env \<Rightarrow> SavedReport \<Rightarrow> pydict" where
  "report_dict e s =
     [(''id'', PStr (saved_id s)), (''report_data'', dump_report e (report_data s)),
      (''saved_at'', PStr (isoformat e (saved_at s)))]"

text \<open>
  The constructors \<^verbatim>\<open>SavedReport(**r)\<close>, \<^verbatim>\<open>AnalyzedReport\<close> and \<^verbatim>\<open>HealthParameter\<close> on
  a document: a field without a default must be present, a field with a default factory
  draws a new value when it is absent (for the document at position \<open>i\<close> the draws
  \<open>2 * i\<close> and \<open>2 * i + 1\<close>), and a key that is no field is ignored. \<open>None\<close> is the
  validation error.
\<close>

definition req_str :: "pydict \<Rightarrow> string \<Rightarrow> string option" where
  "req_str d k = (case dget d k of None \<Rightarrow> None | Some v \<Rightarrow> v_str v)"

definition opt_str :: "pydict \<Rightarrow> string \<Rightarrow> string option option" where
  "opt_str d k = (case dget d k of None \<Rightarrow> Some None | Some v \<Rightarrow> v_opt_str v)"

definition v_datetime :: "env \<Rightarrow> pyval \<Rightarrow> datetime option" where
  "v_datetime e v = (case v of PDatetime t \<Rightarrow> Some t | _ \<Rightarrow> coerce_datetime e v)"

definition validate_HealthParameter :: "pyval \<Rightarrow> HealthParameter option" where
  "validate_HealthParameter pv =
     (case pv of
        PDict p \<Rightarrow>
          (case (req_str p ''name'', req_str p ''value'', req_str p ''unit'',
                 req_str p ''normal_range'', req_str p ''status'', req_str p ''explanation'',
                 opt_str p ''hindi_explanation'') of
             (Some n, Some v, Some u, Some r, Some s, Some x, Some h) \<Rightarrow>
               Some \<lparr>name = n, pvalue = v, unit = u, normal_range = r, status = s,
                     explanation = x, hindi_explanation = h\<rparr>
           | _ \<Rightarrow> None)
      | _ \<Rightarrow> None)"

definition validate_AnalyzedReport :: "env \<Rightarrow> nat \<Rightarrow> pyval \<Rightarrow> AnalyzedReport option" where
  "validate_AnalyzedReport e i v =
     (case v of
        PDict d \<Rightarrow>
          (case ((case dget d ''id'' of None \<Rightarrow> Some (uuid4 e (2 * i + 1)) | Some x \<Rightarrow> v_str x),
                 req_str d ''report_type'', req_str d ''title'', req_str d ''summary'',
                 opt_str d ''hindi_summary'',
                 (case dget d ''parameters'' of
                    Some (PList ps) \<Rightarrow> those (map validate_HealthParameter ps)
                  | _ \<Rightarrow> None),
                 (case dget d ''health_tips'' of None \<Rightarrow> None | Some x \<Rightarrow> v_list_str x),
                 (case dget d ''hindi_health_tips'' of
                    None \<Rightarrow> Some None
                  | Some x \<Rightarrow> v_opt_list_str x),
                 req_str d ''overall_status'',
                 (case dget d ''created_at'' of
                    None \<Rightarrow> Some (utcnow e)
                  | Some x \<Rightarrow> v_datetime e x),
                 opt_str d ''image_base64'') of
             (Some a, Some rt, Some ti, Some su, Some hs, Some ps, Some ht, Some hht, Some os,
              Some ca, Some im) \<Rightarrow>
               Some \<lparr>report_id = a, report_type = rt, title = ti, summary = su,
                     hindi_summary = hs, parameters = ps, health_tips = ht,
                     hindi_health_tips = hht, overall_status = os, created_at = ca,
                     image_base64 = im\<rparr>
           | _ \<Rightarrow> None)
      | _ \<Rightarrow> None)"

definition validate_SavedReport :: "env \<Rightarrow> nat \<Rightarrow> pydict \<Rightarrow> SavedReport option" where
  "validate_SavedReport e i r =
     (case ((case dget r ''id'' of None \<Rightarrow> Some (uuid4 e (2 * i)) | Some x \<Rightarrow> v_str x),
            (case dget r ''report_data'' of
               None \<Rightarrow> None
             | Some x \<Rightarrow> validate_AnalyzedReport e i x),
            (case dget r ''saved_at'' of None \<Rightarrow> Some (utcnow e) | Some x \<Rightarrow> v_datetime e x)) of
        (Some a, Some rd, Some sa) \<Rightarrow> Some \<lparr>saved_id = a, report_data = rd, saved_at = sa\<rparr>
      | _ \<Rightarrow> None)"

text \<open>
  The body of the loop of \<^verbatim>\<open>get_reports\<close> (lines 285 to 291), which \<^verbatim>\<open>get_report\<close>
  repeats (lines 312 to 317): drop \<^verbatim>\<open>_id\<close>, turn the two timestamps back into
  datetimes where they are text, and construct the \<^verbatim>\<open>SavedReport\<close>.
\<close>

definition restore_saved_at :: "env \<Rightarrow> pydict \<Rightarrow> pyexn + pydict" where
  "restore_saved_at e r =
     (case dget r ''saved_at'' of
        Some (PStr s) \<Rightarrow>
          (case fromisoformat e s of
             None \<Rightarrow> Inl (ValueError s)
           | Some t \<Rightarrow> Inr (dset r ''saved_at'' (PDatetime t)))
      | _ \<Rightarrow> Inr r)"

definition restore_created_at :: "env \<Rightarrow> pydict \<Rightarrow> pyexn + pydict" where
  "restore_created_at e r =
     (case get_or r ''report_data'' (PDict []) of
        PDict rd \<Rightarrow>
          (case dget rd ''created_at'' of
             Some (PStr s) \<Rightarrow>
               (case fromisoformat e s of
                  None \<Rightarrow> Inl (ValueError s)
                | Some t \<Rightarrow>
                    Inr (dset r ''report_data'' (PDict (dset rd ''created_at'' (PDatetime t)))))
           | _ \<Rightarrow> Inr r)
      | v \<Rightarrow> Inl (no_attribute v ''get''))"

definition doc_to_saved :: "env \<Rightarrow> nat \<Rightarrow> pydict \<Rightarrow> pyexn + SavedReport" where
  "doc_to_saved e i r =
     (case restore_saved_at e (dpop r ''_id'') of
        Inl ex \<Rightarrow> Inl ex
      | Inr r1 \<Rightarrow>
          (case restore_created_at e r1 of
             Inl ex \<Rightarrow> Inl ex
           | Inr r2 \<Rightarrow>
               (case validate_SavedReport e i r2 of
                  None \<Rightarrow> Inl (ValidationError ''SavedReport'')
                | Some s \<Rightarrow> Inr s)))"

section \<open>Saving, listing, reading and deleting\<close>

text \<open>
  \<^verbatim>\<open>sorted(MEMORY_REPORTS, key=lambda x: x.saved_at, reverse=True)\<close>: Python's sort is
  stable, also with \<^verbatim>\<open>reverse=True\<close>, so entries of equal key keep their order.
\<close>

definition sorted_reverse :: "('a \<Rightarrow> 'k::linorder) \<Rightarrow> 'a list \<Rightarrow> 'a list" where
  "sorted_reverse f xs = rev (sort_key f (rev xs))"

text \<open>\<^verbatim>\<open>save_report\<close> (lines 251 to 274).\<close>

definition save_report ::
  "env \<Rightarrow> world \<Rightarrow> AnalyzedReport \<Rightarrow> (http_error + SavedReport) \<times> world" where
  "save_report e w report =
     (let saved_report = \<lparr>saved_id = uuid4 e 0, report_data = report, saved_at = utcnow e\<rparr> in
      case (USE_MONGODB w, db w) of
        (True, Some docs) \<Rightarrow>
          (case db_error e of
             None \<Rightarrow> (Inr saved_report, w\<lparr>db := Some (docs @ [report_dict e saved_report])\<rparr>)
           | Some msg \<Rightarrow>
               (Inr saved_report, w\<lparr>MEMORY_REPORTS := MEMORY_REPORTS w @ [saved_report]\<rparr>))
      | _ \<Rightarrow> (Inr saved_report, w\<lparr>MEMORY_REPORTS := MEMORY_REPORTS w @ [saved_report]\<rparr>))"

text \<open>
  \<^verbatim>\<open>get_reports\<close> (lines 276 to 302). \<open>mongo_reports\<close> is the inner \<^verbatim>\<open>try\<close> block: the
  query and the conversion of every document returned; any exception in it leads to the
  in-process collection.
\<close>

definition mongo_reports :: "env \<Rightarrow> pydict list \<Rightarrow> pyexn + SavedReport list" where
  "mongo_reports e docs =
     (case db_error e of
        Some msg \<Rightarrow> Inl (ServiceError msg)
      | None \<Rightarrow> map_exn (\<lambda>ir. doc_to_saved e (fst ir) (snd ir)) (enumerate 0 (find_sorted docs)))"

definition get_reports :: "env \<Rightarrow> world \<Rightarrow> (http_error + SavedReport list) \<times> world" where
  "get_reports e w =
     (case (USE_MONGODB w, db w) of
        (True, Some docs) \<Rightarrow>
          (case mongo_reports e docs of
             Inr result \<Rightarrow> (Inr result, w)
           | Inl db_err \<Rightarrow> (Inr (sorted_reverse saved_at (MEMORY_REPORTS w)), w))
      | _ \<Rightarrow> (Inr (sorted_reverse saved_at (MEMORY_REPORTS w)), w))"

text \<open>\<^verbatim>\<open>get_report\<close> (lines 304 to 327): only \<^verbatim>\<open>USE_MONGODB\<close> is tested.\<close>

definition get_report :: "env \<Rightarrow> world \<Rightarrow> string \<Rightarrow> (http_error + SavedReport) \<times> world" where
  "get_report e w rid =
     (if USE_MONGODB w then
        (case db w of
           None \<Rightarrow> (Inl (HTTPException 500 (StrOf (no_attribute PNone ''reports''))), w)
         | Some docs \<Rightarrow>
             (case db_error e of
                Some msg \<Rightarrow> (Inl (HTTPException 500 (StrOf (ServiceError msg))), w)
              | None \<Rightarrow>
                  (case find (matches_id rid) docs of
                     None \<Rightarrow> (Inl (HTTPException 404 (Text ''Report not found'')), w)
                   | Some report \<Rightarrow>
                       (if report = [] then (Inl (HTTPException 404 (Text ''Report not found'')), w)
                        else
                          (case doc_to_saved e 0 report of
                             Inl ex \<Rightarrow> (Inl (HTTPException 500 (StrOf ex)), w)
                           | Inr s \<Rightarrow> (Inr s, w))))))
      else
        (case find (\<lambda>report. saved_id report = rid) (MEMORY_REPORTS w) of
           Some report \<Rightarrow> (Inr report, w)
         | None \<Rightarrow> (Inl (HTTPException 404 (Text ''Report not found'')), w)))"

text \<open>\<^verbatim>\<open>delete_report\<close> (lines 329 to 348).\<close>

definition deleted_message :: pydict where
  "deleted_message = [(''message'', PStr ''Report deleted successfully'')]"

definition delete_report :: "env \<Rightarrow> world \<Rightarrow> string \<Rightarrow> (http_error + pydict) \<times> world" where
  "delete_report e w rid =
     (if USE_MONGODB w then
        (case db w of
           None \<Rightarrow> (Inl (HTTPException 500 (StrOf (no_attribute PNone ''reports''))), w)
         | Some docs \<Rightarrow>
             (case db_error e of
                Some msg \<Rightarrow> (Inl (HTTPException 500 (StrOf (ServiceError msg))), w)
              | None \<Rightarrow>
                  (if find (matches_id rid) docs = None
                   then (Inl (HTTPException 404 (Text ''Report not found'')), w)
                   else (Inr deleted_message,
                         w\<lparr>db := Some (remove_first (matches_id rid) docs)\<rparr>))))
      else
        (if find (\<lambda>report. saved_id report = rid) (MEMORY_REPORTS w) = None
         then (Inl (HTTPException 404 (Text ''Report not found'')), w)
         else (Inr deleted_message,
               w\<lparr>MEMORY_REPORTS :=
                    remove_first (\<lambda>report. saved_id report = rid) (MEMORY_REPORTS w)\<rparr>)))"

section \<open>Comparison\<close>

text \<open>
  \<^verbatim>\<open>all_params\<close> is a dictionary from parameter names to lists of entries. Its keys
  are whatever \<^verbatim>\<open>param.get("name")\<close> returns: a key must be hashable, and two keys are
  the same key when Python finds them equal (numbers by their value, \<^verbatim>\<open>True\<close> being 1
  and \<^verbatim>\<open>False\<close> 0; everything else by type and content). The dictionary keeps the order
  in which the keys were first added.
\<close>

type_synonym trends = "(pyval \<times> pyval list) list"

fun hashable :: "pyval \<Rightarrow> bool" where
  "hashable (PList _) = False"
| "hashable (PDict _) = False"
| "hashable _ = True"

fun key_num :: "pyval \<Rightarrow> real option" where
  "key_num (PBool b) = Some (if b then 1 else 0)"
| "key_num (PInt n) = Some (real_of_int n)"
| "key_num (PFloat x) = Some x"
| "key_num _ = None"

definition key_eq :: "pyval \<Rightarrow> pyval \<Rightarrow> bool" where
  "key_eq a b =
     (case (key_num a, key_num b) of
        (Some x, Some y) \<Rightarrow> x = y
      | (None, None) \<Rightarrow> a = b
      | _ \<Rightarrow> False)"

text \<open>
  Lines 379 to 385: \<^verbatim>\<open>if param_name not in all_params: all_params[param_name] = []\<close>,
  then the entry is appended to the list of the key.
\<close>

fun trends_append :: "trends \<Rightarrow> pyval \<Rightarrow> pyval \<Rightarrow> trends" where
  "trends_append [] k v = [(k, [v])]"
| "trends_append ((k', vs) # t) k v =
     (if key_eq k' k then (k', vs @ [v]) # t else (k', vs) # trends_append t k v)"

definition trends_get :: "trends \<Rightarrow> pyval \<Rightarrow> pyval list option" where
  "trends_get t k = map_option snd (find (\<lambda>kv. key_eq (fst kv) k) t)"

text \<open>A loop that updates an accumulator and may raise.\<close>

fun fold_exn :: "('s \<Rightarrow> 'a \<Rightarrow> 'e + 's) \<Rightarrow> 's \<Rightarrow> 'a list \<Rightarrow> 'e + 's" where
  "fold_exn f s [] = Inr s"
| "fold_exn f s (x # xs) = (case f s x of Inl e \<Rightarrow> Inl e | Inr s' \<Rightarrow> fold_exn f s' xs)"

definition trend_entry :: "pyval \<Rightarrow> pydict \<Rightarrow> pyval" where
  "trend_entry report_date p =
     PDict [(''date'', report_date), (''value'', get_or p ''value'' PNone),
            (''status'', get_or p ''status'' PNone)]"

definition add_param :: "pyval \<Rightarrow> trends \<Rightarrow> pyval \<Rightarrow> pyexn + trends" where
  "add_param report_date all_params param =
     (case param of
        PDict p \<Rightarrow>
          (let param_name = get_or p ''name'' PNone in
           if hashable param_name
           then Inr (trends_append all_params param_name (trend_entry report_date p))
           else Inl (TypeError (''unhashable type: '' @ [CHR 0x27] @ type_name param_name @ [CHR 0x27])))
      | _ \<Rightarrow> Inl (no_attribute param ''get''))"

definition add_report :: "trends \<Rightarrow> pydict \<Rightarrow> pyexn + trends" where
  "add_report all_params report =
     (let report_date = get_or report ''saved_at'' (PStr ''Unknown'') in
      case get_or report ''report_data'' (PDict []) of
        PDict rd \<Rightarrow>
          (case iter_items (get_or rd ''parameters'' (PList [])) of
             Inl ex \<Rightarrow> Inl ex
           | Inr params \<Rightarrow> fold_exn (add_param report_date) all_params params)
      | v \<Rightarrow> Inl (no_attribute v ''get''))"

text \<open>
  Lines 357 to 362: every identifier is looked up through \<^verbatim>\<open>db.reports.find_one\<close>,
  whatever \<^verbatim>\<open>USE_MONGODB\<close> says; \<^verbatim>\<open>db\<close> being \<^verbatim>\<open>None\<close>, the attribute access raises.
\<close>

definition find_one :: "env \<Rightarrow> world \<Rightarrow> string \<Rightarrow> pyexn + pydict option" where
  "find_one e w rid =
     (case db w of
        None \<Rightarrow> Inl (no_attribute PNone ''reports'')
      | Some docs \<Rightarrow>
          (case db_error e of
             Some msg \<Rightarrow> Inl (ServiceError msg)
           | None \<Rightarrow> Inr (find (matches_id rid) docs)))"

fun fetch_reports :: "env \<Rightarrow> world \<Rightarrow> string list \<Rightarrow> pyexn + pydict list" where
  "fetch_reports e w [] = Inr []"
| "fetch_reports e w (rid # rest) =
     (case find_one e w rid of
        Inl ex \<Rightarrow> Inl ex
      | Inr report \<Rightarrow>
          (case fetch_reports e w rest of
             Inl ex \<Rightarrow> Inl ex
           | Inr reports \<Rightarrow>
               (case report of
                  None \<Rightarrow> Inr reports
                | Some r \<Rightarrow> if r = [] then Inr reports else Inr (dpop r ''_id'' # reports))))"

record comparison =
  reports :: "pydict list"
  parameter_trends :: trends

text \<open>\<^verbatim>\<open>compare_reports\<close> (lines 350 to 394).\<close>

definition compare_reports ::
  "env \<Rightarrow> world \<Rightarrow> CompareReportsRequest \<Rightarrow> (http_error + comparison) \<times> world" where
  "compare_reports e w request =
     (if length (report_ids request) < 2
      then (Inl (HTTPException 400 (Text ''Need at least 2 reports to compare'')), w)
      else
        (case fetch_reports e w (report_ids request) of
           Inl ex \<Rightarrow> (Inl (HTTPException 500 (StrOf ex)), w)
         | Inr found \<Rightarrow>
             (if length found < 2
              then (Inl (HTTPException 404 (Text ''Not enough reports found'')), w)
              else
                (case fold_exn add_report [] found of
                   Inl ex \<Rightarrow> (Inl (HTTPException 500 (StrOf ex)), w)
                 | Inr all_params \<Rightarrow>
                     (Inr \<lparr>reports = found, parameter_trends = all_params\<rparr>, w)))))"

section \<open>Sample inputs\<close>

text \<open>
  A small environment on which the handlers can be run. The LLM answers with an empty
  object but for six images: a sentence that is no JSON, a fenced object, an object
  whose title is \<^verbatim>\<open>null\<close>, an empty list, 2000 opening brackets, and a call that
  raises. The parser knows these texts: on the brackets it exceeds the recursion limit
  of the interpreter, and what it does not know it rejects. There are two instants with
  their ISO text, and a MongoDB that answers. \<open>test_image\<close> is the image of
  \<^verbatim>\<open>analyze_test.py\<close> (96 characters), \<open>long_image\<close> one of 120 characters.
\<close>

definition quoted :: "string \<Rightarrow> string" where
  "quoted s = [CHR 0x22] @ s @ [CHR 0x22]"

definition sample_object :: pyval where
  "sample_object =
     PDict [(''title'', PStr ''Complete Blood Count''),
            (''parameters'', PList [PDict [(''name'', PStr ''Hemoglobin''), (''flag'', PInt 1)]]),
            (''confidence'', PFloat 1)]"

definition sample_text :: string where
  "sample_text =
     ''{'' @ quoted ''title'' @ '': '' @ quoted ''Complete Blood Count'' @ '', '' @
     quoted ''parameters'' @ '': [{'' @ quoted ''name'' @ '': '' @ quoted ''Hemoglobin'' @ '', '' @
     quoted ''flag'' @ '': 1}], '' @ quoted ''confidence'' @ '': 1.0}''"

definition null_title_text :: string where
  "null_title_text = ''{'' @ quoted ''title'' @ '': null}''"

definition deep_text :: string where
  "deep_text = replicate 2000 (CHR ''['')"

definition sample_loads :: "string \<Rightarrow> pyexn + pyval" where
  "sample_loads s =
     (if s = ''{}'' then Inr (PDict [])
      else if s = sample_text then Inr sample_object
      else if s = null_title_text then Inr (PDict [(''title'', PNone)])
      else if s = ''[]'' then Inr (PList [])
      else if s = deep_text
        then Inl (RecursionError (''maximum recursion depth exceeded while decoding '' @
                                  ''a JSON array from a unicode string''))
      else Inl (JSONDecodeError ''Expecting value: line 1 column 1 (char 0)''))"

definition sample_send_message :: "string \<Rightarrow> string \<Rightarrow> llm_reply" where
  "sample_send_message img language =
     (if img = ''Tk8='' then Returns (Some ''Sorry, I cannot read this image.'')
      else if img = ''Q0JD''
        then Returns (Some ('' ```json'' @ [CHR 0x0A] @ sample_text @ [CHR 0x0A] @ ''```''))
      else if img = ''TlVMTA=='' then Returns (Some null_title_text)
      else if img = ''W10='' then Returns (Some ''[]'')
      else if img = ''REVFUA=='' then Returns (Some deep_text)
      else if img = ''RVJS'' then Raises (ServiceError ''timeout'')
      else Returns (Some ''{}''))"

definition sample_isoformat :: "datetime \<Rightarrow> string" where
  "sample_isoformat t =
     (if t = 1704153600000000 then ''2024-01-02T00:00:00'' else ''2024-01-01T00:00:00'')"

definition sample_fromisoformat :: "string \<Rightarrow> datetime option" where
  "sample_fromisoformat s =
     (if s = ''2024-01-01T00:00:00'' then Some 1704067200000000
      else if s = ''2024-01-02T00:00:00'' then Some 1704153600000000
      else None)"

definition sample_env :: env where
  "sample_env =
     \<lparr>EMERGENT_LLM_KEY = Some ''key'', send_message = sample_send_message,
      loads = sample_loads, isoformat = sample_isoformat,
      fromisoformat = sample_fromisoformat, coerce_datetime = (\<lambda>v. None),
      uuid4 = (\<lambda>n. ''id-'' @ replicate n (CHR ''x'')), utcnow = 1704067200000000,
      db_error = None\<rparr>"

definition memory_world :: world where
  "memory_world = \<lparr>USE_MONGODB = False, db = None, MEMORY_REPORTS = [], llm_calls = 0\<rparr>"

definition mongo_world :: world where
  "mongo_world = \<lparr>USE_MONGODB = True, db = Some [], MEMORY_REPORTS = [], llm_calls = 0\<rparr>"

definition sample_parameter :: "string \<Rightarrow> string \<Rightarrow> HealthParameter" where
  "sample_parameter v s =
     \<lparr>name = ''Hemoglobin'', pvalue = v, unit = ''g/dL'', normal_range = ''12-16 g/dL'',
      status = s, explanation = [], hindi_explanation = None\<rparr>"

definition sample_report :: "string \<Rightarrow> string \<Rightarrow> datetime \<Rightarrow> AnalyzedReport" where
  "sample_report v s t =
     \<lparr>report_id = ''r-'' @ v, report_type = ''blood_test'', title = ''Complete Blood Count'',
      summary = ''Summary'', hindi_summary = None, parameters = [sample_parameter v s],
      health_tips = [''Drink water''], hindi_health_tips = None, overall_status = ''good'',
      created_at = t, image_base64 = Some ''QUJD...''\<rparr>"

definition sample_saved :: "string \<Rightarrow> string \<Rightarrow> string \<Rightarrow> datetime \<Rightarrow> SavedReport" where
  "sample_saved i v s t = \<lparr>saved_id = i, report_data = sample_report v s t, saved_at = t\<rparr>"

definition test_image :: string where
  "test_image =
     ''iVBORw0KGgoAAAANSUhEUgAAAAEAAAABCAYAAAAfFcSJAAAADUlEQVR42mP8/5+hHgAHggJ/PchI7wAAAABJRU5ErkJggg==''"

definition long_image :: string where
  "long_image = test_image @ ''iVBORw0KGgoAAAANSUhEUgAA''"

text \<open>
  The same environment during an outage of MongoDB, the report that the sample
  environment builds from the empty object for an image, and the one it builds from
  \<open>sample_object\<close>.
\<close>

definition outage_env :: env where
  "outage_env = sample_env\<lparr>db_error := Some ''ServerSelectionTimeoutError''\<rparr>"

definition empty_analysis :: "string \<Rightarrow> AnalyzedReport" where
  "empty_analysis img =
     \<lparr>report_id = ''id-x'', report_type = ''blood_test'', title = ''Medical Report'',
      summary = ''Report analyzed successfully'', hindi_summary = None, parameters = [],
      health_tips = [], hindi_health_tips = None, overall_status = ''moderate'',
      created_at = 1704067200000000, image_base64 = Some (take 100 img @ ''...'')\<rparr>"

definition sample_analyzed :: AnalyzedReport where
  "sample_analyzed =
     \<lparr>report_id = ''id-x'', report_type = ''blood_test'', title = ''Complete Blood Count'',
      summary = ''Report analyzed successfully'', hindi_summary = None,
      parameters = [\<lparr>name = ''Hemoglobin'', pvalue = ''N/A'', unit = [], normal_range = ''N/A'',
                     status = ''normal'', explanation = [], hindi_explanation = None\<rparr>],
      health_tips = [], hindi_health_tips = None, overall_status = ''moderate'',
      created_at = 1704067200000000, image_base64 = Some ''Q0JD...''\<rparr>"

text \<open>
  Two saved reports that share the parameter Hemoglobin, held by the in-process
  collection of a process without database, and held as documents by the database.
\<close>

definition first_saved :: SavedReport where
  "first_saved = sample_saved ''a'' ''13.1'' ''normal'' 1704067200000000"

definition second_saved :: SavedReport where
  "second_saved = sample_saved ''b'' ''11.2'' ''low'' 1704153600000000"

definition memory_two :: world where
  "memory_two = memory_world\<lparr>MEMORY_REPORTS := [first_saved, second_saved]\<rparr>"

definition mongo_two :: world where
  "mongo_two =
     mongo_world\<lparr>db := Some [report_dict sample_env first_saved,
                              report_dict sample_env second_saved]\<rparr>"

section \<open>Derived notions\<close>

text \<open>
  The reports \<open>srs\<close> in the order in which the durable query returns the documents that
  \<open>save_report\<close> wrote for them in environment \<open>e0\<close>: descending in the ISO text of
  \<open>saved_at\<close>.
\<close>

definition recent_first :: "env \<Rightarrow> SavedReport list \<Rightarrow> SavedReport list" where
  "recent_first e0 srs = rev (sort_key (\<lambda>s. Some (isoformat e0 (saved_at s))) srs)"

text \<open>
  The types that the report models declare for the fields that \<^verbatim>\<open>analyze_report\<close>
  fills from the parsed object (lines 66 to 86): \<^verbatim>\<open>str\<close>, \<^verbatim>\<open>Optional[str]\<close>,
  \<^verbatim>\<open>List[str]\<close> and \<^verbatim>\<open>Optional[List[str]]\<close>, as predicates on a parsed value.
\<close>

fun is_str :: "pyval \<Rightarrow> bool" where
  "is_str (PStr _) = True"
| "is_str _ = False"

fun is_opt_str :: "pyval \<Rightarrow> bool" where
  "is_opt_str PNone = True"
| "is_opt_str v = is_str v"

fun is_list_str :: "pyval \<Rightarrow> bool" where
  "is_list_str (PList xs) = list_all is_str xs"
| "is_list_str _ = False"

fun is_opt_list_str :: "pyval \<Rightarrow> bool" where
  "is_opt_list_str PNone = True"
| "is_opt_list_str v = is_list_str v"

text \<open>A field of an object is of a type when it is absent or holds a value of that type.\<close>

definition field_ok :: "(pyval \<Rightarrow> bool) \<Rightarrow> pydict \<Rightarrow> string \<Rightarrow> bool" where
  "field_ok is_type d k = (case dget d k of None \<Rightarrow> True | Some v \<Rightarrow> is_type v)"

text \<open>
  An element of the parameters list is well typed when it is an object whose fields
  are of the types of \<^verbatim>\<open>HealthParameter\<close>; a parsed object is well typed when its fields
  are of the types of \<^verbatim>\<open>AnalyzedReport\<close>, its parameters, if any, being a list of well
  typed elements.
\<close>

definition parameter_ok :: "pyval \<Rightarrow> bool" where
  "parameter_ok pv =
     (case pv of
        PDict p \<Rightarrow>
          field_ok is_str p ''name'' \<and> field_ok is_str p ''value'' \<and> field_ok is_str p ''unit''
          \<and> field_ok is_str p ''normal_range'' \<and> field_ok is_str p ''status''
          \<and> field_ok is_str p ''explanation'' \<and> field_ok is_opt_str p ''hindi_explanation''
      | _ \<Rightarrow> False)"

definition analysis_ok :: "pydict \<Rightarrow> bool" where
  "analysis_ok a =
     (field_ok is_str a ''report_type'' \<and> field_ok is_str a ''title''
      \<and> field_ok is_str a ''summary'' \<and> field_ok is_opt_str a ''hindi_summary''
      \<and> field_ok is_list_str a ''health_tips''
      \<and> field_ok is_opt_list_str a ''hindi_health_tips''
      \<and> field_ok is_str a ''overall_status''
      \<and> (case dget a ''parameters'' of
            None \<Rightarrow> True
          | Some (PList ps) \<Rightarrow> list_all parameter_ok ps
          | Some _ \<Rightarrow> False))"

section \<open>Auxiliary facts\<close>

lemmas sample_defs = sample_env_def sample_send_message_def sample_loads_def sample_object_def
  sample_text_def null_title_text_def quoted_def memory_world_def mongo_world_def

lemmas text_defs = clean_response_def strip_def isspace_def startswith_def endswith_def

lemmas analyze_defs = analyze_report_def analyze_medical_report_def make_report_def
  make_parameter_def get_or_def dget_def

lemma map_exn_Inr:
  "map_exn f xs = Inr ys \<Longrightarrow> length ys = length xs \<and> (\<forall>i<length xs. f (xs ! i) = Inr (ys ! i))"
proof (induction xs arbitrary: ys)
  case Nil
  then show ?case by simp
next
  case (Cons x xs)
  then obtain y ys' where y: "f x = Inr y" and ys': "map_exn f xs = Inr ys'" and ys: "ys = y # ys'"
    by (auto split: sum.splits)
  from Cons.IH [OF ys'] y ys show ?case
    by (auto simp: nth_Cons split: nat.splits)
qed

lemma get_or_absent: "dget d k = None \<Longrightarrow> get_or d k v = v"
  by (simp add: get_or_def)

lemma make_parameter_fields:
  assumes "make_parameter (PDict p) = Inr hp"
  shows "v_str (get_or p ''name'' (PStr ''Unknown'')) = Some (name hp)"
    and "v_str (get_or p ''value'' (PStr ''N/A'')) = Some (pvalue hp)"
    and "v_str (get_or p ''unit'' (PStr [])) = Some (unit hp)"
    and "v_str (get_or p ''normal_range'' (PStr ''N/A'')) = Some (normal_range hp)"
    and "v_str (get_or p ''status'' (PStr ''normal'')) = Some (status hp)"
    and "v_str (get_or p ''explanation'' (PStr [])) = Some (explanation hp)"
    and "v_opt_str (get_or p ''hindi_explanation'' PNone) = Some (hindi_explanation hp)"
  using assms by (auto simp: make_parameter_def split: option.splits)

lemma make_report_fields:
  assumes "make_report e img (PDict a) = Inr r"
  shows "v_str (get_or a ''report_type'' (PStr ''blood_test'')) = Some (report_type r)"
    and "v_str (get_or a ''title'' (PStr ''Medical Report'')) = Some (title r)"
    and "v_str (get_or a ''summary'' (PStr ''Report analyzed successfully'')) = Some (summary r)"
    and "v_opt_str (get_or a ''hindi_summary'' PNone) = Some (hindi_summary r)"
    and "v_list_str (get_or a ''health_tips'' (PList [])) = Some (health_tips r)"
    and "v_opt_list_str (get_or a ''hindi_health_tips'' PNone) = Some (hindi_health_tips r)"
    and "v_str (get_or a ''overall_status'' (PStr ''moderate'')) = Some (overall_status r)"
    and "\<exists>items. iter_items (get_or a ''parameters'' (PList [])) = Inr items
           \<and> map_exn make_parameter items = Inr (parameters r)"
  using assms by (auto simp: make_report_def split: option.splits sum.splits)

lemma dget_other: "k \<noteq> k' \<Longrightarrow> dget ((k', v) # d) k = dget d k"
  by (simp add: dget_def)

lemma get_or_other: "k \<noteq> k' \<Longrightarrow> get_or ((k', v) # d) k x = get_or d k x"
  by (simp add: get_or_def dget_other)

lemma make_parameter_extra:
  assumes "k \<notin> {''name'', ''value'', ''unit'', ''normal_range'', ''status'', ''explanation'',
                 ''hindi_explanation''}"
  shows "make_parameter (PDict ((k, v) # p)) = make_parameter (PDict p)"
proof -
  have "get_or ((k, v) # p) k' x = get_or p k' x"
    if "k' \<in> {''name'', ''value'', ''unit'', ''normal_range'', ''status'', ''explanation'',
                 ''hindi_explanation''}" for k' x
    using that assms by (intro get_or_other) auto
  then show ?thesis by (simp add: make_parameter_def)
qed

lemma make_report_extra:
  assumes "k \<notin> {''report_type'', ''title'', ''summary'', ''hindi_summary'', ''parameters'',
                 ''health_tips'', ''hindi_health_tips'', ''overall_status''}"
  shows "make_report e img (PDict ((k, v) # a)) = make_report e img (PDict a)"
proof -
  have "get_or ((k, v) # a) k' x = get_or a k' x"
    if "k' \<in> {''report_type'', ''title'', ''summary'', ''hindi_summary'', ''parameters'',
                 ''health_tips'', ''hindi_health_tips'', ''overall_status''}" for k' x
    using that assms by (intro get_or_other) auto
  then show ?thesis by (simp add: make_report_def cong: sum.case_cong)
qed

lemma analyze_report_Inr:
  assumes "analyze_report e w request = (Inr report, w')"
  shows "\<exists>analysis. make_report e (req_image_base64 request) analysis = Inr report"
  using assms
  by (auto simp: analyze_report_def split: if_splits prod.splits sum.splits raised.splits)

lemma make_report_image:
  assumes "make_report e img analysis = Inr report"
  shows "image_base64 report = Some (take 100 img @ ''...'')"
  using assms
  by (auto simp: make_report_def split: pyval.splits sum.splits option.splits)

lemma set_sorted_reverse: "set (sorted_reverse f xs) = set xs"
  by (simp add: sorted_reverse_def)

lemma analyze_report_parsed:
  assumes "req_image_base64 request \<noteq> []"
    and "EMERGENT_LLM_KEY e = Some key" and "key \<noteq> []"
    and "send_message e (req_image_base64 request) (req_language request) = Returns (Some response)"
    and "loads e (clean_response response) = Inr analysis"
  shows "analyze_report e w request =
           (case make_report e (req_image_base64 request) analysis of
              Inl ex \<Rightarrow> (Inl (HTTPException 500 (StrOf ex)), w\<lparr>llm_calls := llm_calls w + 1\<rparr>)
            | Inr report \<Rightarrow> (Inr report, w\<lparr>llm_calls := llm_calls w + 1\<rparr>))"
  using assms by (simp add: analyze_report_def analyze_medical_report_def split: sum.splits)

lemma make_parameter_defaults:
  assumes "make_parameter pv = Inr hp"
  shows "\<exists>p. pv = PDict p
          \<and> (dget p ''name'' = None \<longrightarrow> name hp = ''Unknown'')
          \<and> (dget p ''value'' = None \<longrightarrow> pvalue hp = ''N/A'')
          \<and> (dget p ''unit'' = None \<longrightarrow> unit hp = [])
          \<and> (dget p ''normal_range'' = None \<longrightarrow> normal_range hp = ''N/A'')
          \<and> (dget p ''status'' = None \<longrightarrow> status hp = ''normal'')
          \<and> (dget p ''explanation'' = None \<longrightarrow> explanation hp = [])
          \<and> (dget p ''hindi_explanation'' = None \<longrightarrow> hindi_explanation hp = None)"
proof -
  obtain p where p: "pv = PDict p"
    using assms by (cases pv) (simp_all add: make_parameter_def)
  note f = make_parameter_fields [OF assms [unfolded p]]
  show ?thesis
    using f by (auto simp: p get_or_absent)
qed

subsection \<open>Text and fences\<close>

lemma strip_core:
  assumes "\<forall>c\<in>set a. isspace c" "\<forall>c\<in>set b. isspace c" "x \<noteq> []"
    "\<not> isspace (hd x)" "\<not> isspace (last x)"
  shows "strip (a @ x @ b) = x"
proof -
  have 1: "dropWhile isspace (a @ x @ b) = x @ b"
    using assms by (cases x) (simp_all add: dropWhile_append2)
  have "dropWhile isspace (rev b @ rev x) = dropWhile isspace (rev x)"
    using assms(2) by (intro dropWhile_append2) simp
  moreover have "dropWhile isspace (rev x) = rev x"
    using assms(3,5) by (cases x rule: rev_cases) simp_all
  ultimately have 2: "dropWhile isspace (rev (x @ b)) = rev x" by simp
  show ?thesis unfolding strip_def 1 2 by simp
qed

lemma dropWhile_rev_dropWhile:
  assumes "ys = [] \<or> \<not> P (hd ys)"
  shows "dropWhile P (rev (dropWhile P (rev ys))) = rev (dropWhile P (rev ys))"
proof (cases "rev (dropWhile P (rev ys))")
  case Nil
  show ?thesis unfolding Nil by simp
next
  case (Cons z zs)
  have "rev ys = takeWhile P (rev ys) @ dropWhile P (rev ys)" by simp
  then have "ys = rev (dropWhile P (rev ys)) @ rev (takeWhile P (rev ys))"
    by (metis rev_append rev_rev_ident)
  with Cons have "ys = z # zs @ rev (takeWhile P (rev ys))" by simp
  then have "hd ys = z \<and> ys \<noteq> []" by (cases ys) auto
  with assms have "\<not> P z" by auto
  then show ?thesis unfolding Cons by simp
qed

lemma strip_strip: "strip (strip t) = strip t"
proof -
  have a: "dropWhile isspace t = [] \<or> \<not> isspace (hd (dropWhile isspace t))"
    using hd_dropWhile [of isspace t] by blast
  have "dropWhile isspace (strip t) = strip t"
    unfolding strip_def using a by (rule dropWhile_rev_dropWhile)
  then show ?thesis
    by (simp add: strip_def dropWhile_idem)
qed

lemma not_isspace_tick: "\<not> isspace (CHR 0x60)"
  by (simp add: isspace_def)

lemma sw3: "startswith s ''```'' \<longleftrightarrow> take 3 s = ''```''"
  by (simp add: startswith_def eval_nat_numeral)

lemma sw4: "startswith s ''json'' \<longleftrightarrow> take 4 s = ''json''"
  by (simp add: startswith_def eval_nat_numeral)

lemma sw7: "startswith s ''```json'' \<longleftrightarrow> take 7 s = ''```json''"
  by (simp add: startswith_def eval_nat_numeral)

lemma sw10: "startswith s ''```json```'' \<longleftrightarrow> take 10 s = ''```json```''"
  by (simp add: startswith_def eval_nat_numeral)

lemma fence_json_wrap:
  assumes "\<forall>c\<in>set a. isspace c" "\<forall>c\<in>set b. isspace c" "\<not> startswith t ''```''"
  shows "clean_response (a @ ''```json'' @ t @ ''```'' @ b) = strip t"
proof -
  have s0: "strip (a @ (''```json'' @ t @ ''```'') @ b) = ''```json'' @ t @ ''```''"
    using assms(1,2) by (intro strip_core) (simp_all add: not_isspace_tick)
  show ?thesis
  proof (cases "startswith (t @ ''```'') ''```''")
    case False
    then show ?thesis using s0 by (simp add: clean_response_def startswith_def endswith_def)
  next
    case True
    have "length t < 3"
    proof (rule ccontr)
      assume "\<not> length t < 3"
      then have "take 3 (t @ ''```'') = take 3 t" by simp
      with True assms(3) show False by (simp add: startswith_def)
    qed
    then consider "t = []" | x where "t = [x]" | x y where "t = [x, y]"
      by (cases t; simp; cases "tl t"; simp; cases "tl (tl t)"; auto)
    then show ?thesis using True s0
      by cases (auto simp: clean_response_def startswith_def endswith_def strip_def
          not_isspace_tick)
  qed
qed

lemma fence_bare_wrap:
  assumes "\<forall>c\<in>set a. isspace c" "\<forall>c\<in>set b. isspace c" "\<not> startswith t ''json''"
  shows "clean_response (a @ ''```'' @ t @ ''```'' @ b) = strip t"
proof -
  have s0: "strip (a @ (''```'' @ t @ ''```'') @ b) = ''```'' @ t @ ''```''"
    using assms(1,2) by (intro strip_core) (simp_all add: not_isspace_tick)
  have nj: "\<not> startswith (''```'' @ t @ ''```'') ''```json''"
  proof
    assume "startswith (''```'' @ t @ ''```'') ''```json''"
    then have 4: "take 4 (t @ ''```'') = ''json''" by (simp add: sw7)
    have "4 \<le> length t"
    proof (rule ccontr)
      assume "\<not> 4 \<le> length t"
      then consider "t = []" | x where "t = [x]" | x y where "t = [x, y]"
        | x y z where "t = [x, y, z]"
        by (cases t; simp; cases "tl t"; simp; cases "tl (tl t)"; simp;
            cases "tl (tl (tl t))"; auto)
      then show False using 4 by cases auto
    qed
    then have "take 4 (t @ ''```'') = take 4 t" by simp
    with 4 assms(3) show False by (simp add: sw4)
  qed
  have y: "startswith (''```'' @ t @ ''```'') ''```''" by (simp add: startswith_def)
  have z: "endswith (t @ ''```'') ''```''" by (simp add: endswith_def)
  show ?thesis using s0 nj y z
    by (simp add: clean_response_def)
qed

lemma fence_none:
  assumes "\<not> startswith (strip t) ''```''" "\<not> endswith (strip t) ''```''"
  shows "clean_response t = strip t"
proof -
  have "\<not> startswith (strip t) ''```json''"
  proof
    assume "startswith (strip t) ''```json''"
    then have "take 7 (strip t) = ''```json''" by (simp add: sw7)
    then have "take 3 (take 7 (strip t)) = ''```''" by simp
    then have "take 3 (strip t) = ''```''" by simp
    with assms(1) show False by (simp add: sw3)
  qed
  moreover have "strip (strip t) = strip t"
    by (rule strip_strip)
  ultimately show ?thesis using assms by (simp add: clean_response_def)
qed

lemma fence_single:
  assumes "\<not> startswith (strip s) ''```json```''"
  shows "clean_response s = spec_strip_single_fence s"
proof (cases "startswith (strip s) ''```json''")
  case False
  then show ?thesis by (simp add: clean_response_def spec_strip_single_fence_def)
next
  case True
  have "\<not> startswith (drop 7 (strip s)) ''```''"
  proof
    assume "startswith (drop 7 (strip s)) ''```''"
    then have "take 3 (drop 7 (strip s)) = ''```''" by (simp add: sw3)
    moreover from True have "take 7 (strip s) = ''```json''" by (simp add: sw7)
    moreover have "take 10 (strip s) = take 7 (strip s) @ take 3 (drop 7 (strip s))"
      using take_add [of 7 3 "strip s"] by simp
    ultimately have "take 10 (strip s) = ''```json```''" by simp
    with assms show False by (simp add: sw10)
  qed
  with True show ?thesis by (simp add: clean_response_def spec_strip_single_fence_def)
qed

lemma fence_double:
  assumes "startswith (strip s) ''```json```''"
  shows "clean_response s =
           strip (if endswith (drop 10 (strip s)) ''```''
                  then take (length (drop 10 (strip s)) - 3) (drop 10 (strip s))
                  else drop 10 (strip s))"
proof -
  from assms have t: "take 10 (strip s) = ''```json```''" by (simp add: sw10)
  have "take 7 (take 10 (strip s)) = ''```json''" unfolding t by simp
  then have 1: "startswith (strip s) ''```json''" by (simp add: sw7)
  have "take 10 (strip s) = take 7 (strip s) @ take 3 (drop 7 (strip s))"
    using take_add [of 7 3 "strip s"] by simp
  with t 1 have 2: "startswith (drop 7 (strip s)) ''```''" by (simp add: sw3 sw7)
  show ?thesis using 1 2 by (simp add: clean_response_def)
qed

lemma strip_fence_append: "startswith (strip (''```'' @ r)) ''```''"
proof -
  have d: "dropWhile isspace (''```'' @ r) = ''```'' @ r"
    by (simp add: not_isspace_tick)
  have "\<exists>u. dropWhile isspace (rev r @ ''```'') = u @ ''```''"
  proof (cases "\<forall>c\<in>set (rev r). isspace c")
    case True
    have "dropWhile isspace (rev r @ ''```'') = dropWhile isspace ''```''"
      using True by (intro dropWhile_append2) simp
    then have "dropWhile isspace (rev r @ ''```'') = [] @ ''```''"
      by (simp add: not_isspace_tick)
    then show ?thesis by blast
  next
    case False
    then obtain c where "c \<in> set (rev r)" "\<not> isspace c" by blast
    then have "dropWhile isspace (rev r @ ''```'') = dropWhile isspace (rev r) @ ''```''"
      by (rule dropWhile_append1)
    then show ?thesis by blast
  qed
  then obtain u where u: "dropWhile isspace (rev r @ ''```'') = u @ ''```''" by blast
  have "rev (''```'' @ r) = rev r @ ''```''" by simp
  then have "strip (''```'' @ r) = rev (u @ ''```'')"
    unfolding strip_def d using u by simp
  then show ?thesis by (simp add: sw3)
qed

lemma strip_keeps_fence:
  assumes "startswith t ''```''"
  shows "startswith (strip t) ''```''"
proof -
  from assms have f: "take 3 t = ''```''" by (simp add: sw3)
  note t = append_take_drop_id [of 3 t, unfolded f, symmetric]
  show ?thesis by (subst t) (rule strip_fence_append)
qed

subsection \<open>Lists and the stored collections\<close>

lemmas saved_defs = first_saved_def second_saved_def sample_saved_def

lemma find_None_filter: "find P xs = None \<longleftrightarrow> filter P xs = []"
  by (induction xs) auto

lemma filter_remove_first: "filter P (remove_first P xs) = tl (filter P xs)"
  by (induction xs) auto

lemma filter_not_remove_first:
  "filter (\<lambda>x. \<not> P x) (remove_first P xs) = filter (\<lambda>x. \<not> P x) xs"
  by (induction xs) auto

lemma filter_once_removed:
  assumes "length (filter P xs) = 1"
  shows "filter P (remove_first P xs) = []" and "find P xs \<noteq> None"
    and "find P (remove_first P xs) = None"
proof -
  from assms obtain x where x: "filter P xs = [x]"
    by (cases "filter P xs") auto
  then show 1: "filter P (remove_first P xs) = []" by (simp add: filter_remove_first)
  from x show "find P xs \<noteq> None" by (simp add: find_None_filter)
  from 1 show "find P (remove_first P xs) = None" by (simp add: find_None_filter)
qed

subsection \<open>Documents written and read back, and their order\<close>

lemma those_map_Some: "(\<And>x. f (g x) = Some x) \<Longrightarrow> those (map (f \<circ> g) xs) = Some xs"
  by (induction xs) auto

lemma validate_dump_parameter: "validate_HealthParameter (dump_parameter p) = Some p"
  by (cases p)
    (simp add: validate_HealthParameter_def dump_parameter_def req_str_def opt_str_def dget_def
      dump_opt_str_def split: option.splits)

lemma those_v_str: "those (map (v_str \<circ> PStr) ts) = Some ts"
  by (rule those_map_Some) simp

lemma those_validate_parameter:
  "those (map (validate_HealthParameter \<circ> dump_parameter) ps) = Some ps"
  by (rule those_map_Some) (rule validate_dump_parameter)

lemma validate_dump_report:
  "validate_AnalyzedReport e i
           (PDict (dset (case dump_report e0 r of PDict d \<Rightarrow> d | _ \<Rightarrow> []) ''created_at''
                     (PDatetime (created_at r)))) = Some r"
  by (cases r)
    (simp add: validate_AnalyzedReport_def dump_report_def req_str_def opt_str_def dget_def
      dump_opt_str_def v_datetime_def those_v_str those_validate_parameter
      split: option.splits)

lemma doc_to_saved_report_dict:
  assumes "fromisoformat e (isoformat e0 (saved_at s)) = Some (saved_at s)"
    and "fromisoformat e (isoformat e0 (created_at (report_data s))) = Some (created_at (report_data s))"
  shows "doc_to_saved e i (report_dict e0 s) = Inr s"
proof -
  have 1: "dpop (report_dict e0 s) ''_id'' = report_dict e0 s"
    by (simp add: dpop_def report_dict_def)
  have 2: "restore_saved_at e (report_dict e0 s) =
      Inr [(''id'', PStr (saved_id s)), (''report_data'', dump_report e0 (report_data s)),
           (''saved_at'', PDatetime (saved_at s))]"
    using assms(1) by (simp add: restore_saved_at_def report_dict_def dget_def)
  obtain d where d: "dump_report e0 (report_data s) = PDict d"
    by (simp add: dump_report_def)
  have dc: "dget d ''created_at'' = Some (PStr (isoformat e0 (created_at (report_data s))))"
    using d by (auto simp: dump_report_def dget_def)
  have 3: "restore_created_at e
       [(''id'', PStr (saved_id s)), (''report_data'', dump_report e0 (report_data s)),
        (''saved_at'', PDatetime (saved_at s))] =
      Inr [(''id'', PStr (saved_id s)),
           (''report_data'', PDict (dset d ''created_at'' (PDatetime (created_at (report_data s))))),
           (''saved_at'', PDatetime (saved_at s))]"
    using assms(2) dc by (simp add: restore_created_at_def get_or_def dget_def d)
  have 4: "validate_AnalyzedReport e i
       (PDict (dset d ''created_at'' (PDatetime (created_at (report_data s))))) =
      Some (report_data s)"
    using validate_dump_report [where r = "report_data s" and ?e0.0 = e0 and e = e and i = i]
    by (simp add: d)
  have 5: "validate_SavedReport e i
       [(''id'', PStr (saved_id s)),
        (''report_data'', PDict (dset d ''created_at'' (PDatetime (created_at (report_data s))))),
        (''saved_at'', PDatetime (saved_at s))] = Some s"
    by (simp add: validate_SavedReport_def dget_def 4 v_datetime_def)
  show ?thesis by (simp add: doc_to_saved_def 1 2 3 5)
qed

lemma insort_key_map:
  "insort_key k (f x) (map f xs) = map f (insort_key (\<lambda>y. k (f y)) x xs)"
  by (induction xs) auto

lemma sort_key_map: "sort_key k (map f xs) = map f (sort_key (\<lambda>y. k (f y)) xs)"
  by (induction xs) (auto simp: insort_key_map)

lemma map_exn_enumerate:
  "(\<And>i y. y \<in> set ys \<Longrightarrow> F (i, D y) = Inr y) \<Longrightarrow> map_exn F (enumerate n (map D ys)) = Inr ys"
  by (induction ys arbitrary: n) auto

lemma sorted_map_transfer:
  assumes "sorted (map k xs)"
    and "\<And>x y. x \<in> set xs \<Longrightarrow> y \<in> set xs \<Longrightarrow> k x \<le> k y \<Longrightarrow> f x \<le> f y"
  shows "sorted (map f xs)"
  using assms by (induction xs) auto

lemma sorted_reverse_props:
  "mset (sorted_reverse f xs) = mset xs"
  "sorted (rev (map f (sorted_reverse f xs)))"
  "length (sorted_reverse f xs) = length xs"
  by (simp_all add: sorted_reverse_def rev_map [symmetric])

lemma saved_at_key_report_dict:
  "saved_at_key (report_dict e0 s) = Some (isoformat e0 (saved_at s))"
  by (simp add: saved_at_key_def report_dict_def dget_def)

lemma find_sorted_written:
  "find_sorted (map (report_dict e0) srs) = map (report_dict e0) (take 100 (recent_first e0 srs))"
  by (simp add: find_sorted_def sort_key_map saved_at_key_report_dict recent_first_def
      rev_map take_map)

lemma mongo_reports_written:
  assumes "db_error e = None"
    and "\<And>s. s \<in> set srs \<Longrightarrow> fromisoformat e (isoformat e0 (saved_at s)) = Some (saved_at s)"
    and "\<And>s. s \<in> set srs \<Longrightarrow>
           fromisoformat e (isoformat e0 (created_at (report_data s))) =
             Some (created_at (report_data s))"
  shows "mongo_reports e (map (report_dict e0) srs) = Inr (take 100 (recent_first e0 srs))"
proof -
  have sub: "set (take 100 (recent_first e0 srs)) \<subseteq> set srs"
    using set_take_subset [of 100 "recent_first e0 srs"] by (simp add: recent_first_def)
  have "map_exn (\<lambda>ir. doc_to_saved e (fst ir) (snd ir))
          (enumerate 0 (map (report_dict e0) (take 100 (recent_first e0 srs)))) =
        Inr (take 100 (recent_first e0 srs))"
  proof (rule map_exn_enumerate)
    fix i y assume "y \<in> set (take 100 (recent_first e0 srs))"
    then have "y \<in> set srs" using sub by blast
    then show "doc_to_saved e (fst (i, report_dict e0 y)) (snd (i, report_dict e0 y)) = Inr y"
      using assms(2,3) by (simp add: doc_to_saved_report_dict)
  qed
  then show ?thesis
    using assms(1) by (simp add: mongo_reports_def find_sorted_written)
qed

lemma recent_first_sorted:
  assumes "\<And>s s'. s \<in> set srs \<Longrightarrow> s' \<in> set srs \<Longrightarrow>
      isoformat e0 (saved_at s) \<le> isoformat e0 (saved_at s') \<Longrightarrow> saved_at s \<le> saved_at s'"
  shows "sorted (rev (map saved_at (recent_first e0 srs)))"
proof -
  let ?k = "\<lambda>s. Some (isoformat e0 (saved_at s))"
  have "sorted (map ?k (sort_key ?k srs))" by (rule sorted_sort_key)
  then have "sorted (map saved_at (sort_key ?k srs))"
    by (rule sorted_map_transfer) (use assms in auto)
  then show ?thesis by (simp add: recent_first_def rev_map)
qed

lemma sorted_rev_take:
  assumes "sorted (rev (map f xs))"
  shows "sorted (rev (map f (take n xs)))"
    and "\<forall>x\<in>set (drop n xs). \<forall>y\<in>set (take n xs). f x \<le> f y"
proof -
  have "rev (map f xs) = rev (map f (drop n xs)) @ rev (map f (take n xs))"
    by (metis append_take_drop_id map_append rev_append)
  with assms have s: "sorted (rev (map f (drop n xs)) @ rev (map f (take n xs)))" by simp
  then show "sorted (rev (map f (take n xs)))" by (simp add: sorted_append)
  from s show "\<forall>x\<in>set (drop n xs). \<forall>y\<in>set (take n xs). f x \<le> f y"
    by (auto simp: sorted_append)
qed

lemma get_reports_memory:
  assumes "\<not> USE_MONGODB w \<or> db w = None \<or> (\<exists>docs ex. db w = Some docs \<and> mongo_reports e docs = Inl ex)"
  shows "get_reports e w = (Inr (sorted_reverse saved_at (MEMORY_REPORTS w)), w)"
  using assms by (auto simp: get_reports_def split: option.splits bool.splits sum.splits)

lemma get_reports_durable:
  assumes "USE_MONGODB w" "db w = Some docs" "mongo_reports e docs = Inr rs"
  shows "get_reports e w = (Inr rs, w)"
  using assms by (simp add: get_reports_def)

lemma mongo_reports_length:
  assumes "mongo_reports e docs = Inr rs"
  shows "length rs \<le> 100"
proof -
  from assms have "map_exn (\<lambda>ir. doc_to_saved e (fst ir) (snd ir)) (enumerate 0 (find_sorted docs)) = Inr rs"
    by (auto simp: mongo_reports_def split: option.splits)
  from map_exn_Inr [OF this] show ?thesis by (simp add: find_sorted_def)
qed

subsection \<open>The sample replies\<close>

lemma Cons_replicate:
  "(c # cs = replicate n x) = (0 < n \<and> c = x \<and> cs = replicate (n - 1) x)"
  "(replicate n x = c # cs) = (0 < n \<and> c = x \<and> cs = replicate (n - 1) x)"
  by (cases n; auto)+

lemma clean_response_deep: "clean_response deep_text = deep_text"
proof -
  have n: "deep_text \<noteq> []" by (simp add: deep_text_def)
  have h: "hd deep_text = CHR ''[''" by (simp add: deep_text_def)
  have l: "last deep_text = CHR ''[''" by (simp add: deep_text_def)
  have s: "strip deep_text = deep_text"
    using strip_core [of "[]" "[]" deep_text] n h l by (simp add: isspace_def)
  have a: "\<not> startswith deep_text ''```''"
    by (simp add: sw3 deep_text_def eval_nat_numeral)
  have b: "\<not> endswith deep_text ''```''"
    by (simp add: endswith_def deep_text_def eval_nat_numeral)
  from fence_none [of deep_text] a b s show ?thesis by simp
qed

lemma sample_loads_deep:
  "sample_loads deep_text =
     Inl (RecursionError (''maximum recursion depth exceeded while decoding '' @
                          ''a JSON array from a unicode string''))"
  by (simp add: sample_loads_def deep_text_def Cons_replicate sample_text_def null_title_text_def
      quoted_def)

lemma sample_loads_sorry:
  "sample_loads ''Sorry, I cannot read this image.'' =
     Inl (JSONDecodeError ''Expecting value: line 1 column 1 (char 0)'')"
  by (simp add: sample_loads_def deep_text_def Cons_replicate sample_text_def null_title_text_def
      quoted_def)

subsection \<open>Replies that are rejected\<close>

lemma analyze_report_rejected:
  assumes "req_image_base64 request \<noteq> []"
    and "EMERGENT_LLM_KEY e = Some key" and "key \<noteq> []"
    and "send_message e (req_image_base64 request) (req_language request) = Returns (Some response)"
    and "loads e (clean_response response) = Inl ex"
  shows "analyze_report e w request =
           (Inl (HTTPException 500
                  (if is_JSONDecodeError ex then Text ''Failed to parse AI response''
                   else TextStrOf ''Error analyzing report: '' ex)),
            w\<lparr>llm_calls := llm_calls w + 1\<rparr>)"
  using assms by (simp add: analyze_report_def analyze_medical_report_def)

lemma make_report_not_object:
  "(\<forall>a. v \<noteq> PDict a) \<Longrightarrow> make_report e img v = Inl (no_attribute v ''get'')"
  by (cases v) (simp_all add: make_report_def)

lemma analyze_report_world:
  assumes "req_image_base64 request \<noteq> []"
    and "EMERGENT_LLM_KEY e = Some key" and "key \<noteq> []"
    and "send_message e (req_image_base64 request) (req_language request) = Returns (Some response)"
  shows "snd (analyze_report e w request) = w\<lparr>llm_calls := llm_calls w + 1\<rparr>"
proof (cases "loads e (clean_response response)")
  case (Inl ex)
  from analyze_report_rejected [OF assms Inl] show ?thesis by simp
next
  case (Inr v)
  from analyze_report_parsed [OF assms Inr, of w] show ?thesis
    by (simp split: sum.splits)
qed

subsection \<open>Well typed objects\<close>

lemma is_str_v_str: "is_str v \<Longrightarrow> \<exists>s. v_str v = Some s"
  by (cases v) simp_all

lemma is_opt_str_v_opt_str: "is_opt_str v \<Longrightarrow> \<exists>s. v_opt_str v = Some s"
  by (cases v) simp_all

lemma list_all_is_str_those: "list_all is_str xs \<Longrightarrow> \<exists>ys. those (map v_str xs) = Some ys"
proof (induction xs)
  case Nil
  then show ?case by simp
next
  case (Cons x xs)
  then obtain s ys where "v_str x = Some s" "those (map v_str xs) = Some ys"
    using is_str_v_str by fastforce
  then show ?case by simp
qed

lemma is_list_str_v_list_str: "is_list_str v \<Longrightarrow> \<exists>xs. v_list_str v = Some xs"
  by (cases v) (simp_all add: list_all_is_str_those)

lemma is_opt_list_str_v_opt_list_str:
  "is_opt_list_str v \<Longrightarrow> \<exists>xs. v_opt_list_str v = Some xs"
  using is_list_str_v_list_str [of v] by (cases v) auto

lemma field_ok_get_or: "field_ok is_type d k \<Longrightarrow> is_type dflt \<Longrightarrow> is_type (get_or d k dflt)"
  by (simp add: field_ok_def get_or_def split: option.splits)

lemma field_str: "field_ok is_str d k \<Longrightarrow> \<exists>s. v_str (get_or d k (PStr x)) = Some s"
  by (rule is_str_v_str, rule field_ok_get_or) simp_all

lemma field_opt_str: "field_ok is_opt_str d k \<Longrightarrow> \<exists>s. v_opt_str (get_or d k PNone) = Some s"
  by (rule is_opt_str_v_opt_str, rule field_ok_get_or) simp_all

lemma field_list_str:
  "field_ok is_list_str d k \<Longrightarrow> \<exists>s. v_list_str (get_or d k (PList [])) = Some s"
  by (rule is_list_str_v_list_str, rule field_ok_get_or) simp_all

lemma field_opt_list_str:
  "field_ok is_opt_list_str d k \<Longrightarrow> \<exists>s. v_opt_list_str (get_or d k PNone) = Some s"
  by (rule is_opt_list_str_v_opt_list_str, rule field_ok_get_or) simp_all

lemma parameter_ok_make_parameter:
  assumes "parameter_ok pv"
  shows "\<exists>hp. make_parameter pv = Inr hp"
proof -
  from assms obtain p where p: "pv = PDict p"
    by (cases pv) (simp_all add: parameter_ok_def)
  from assms have f: "field_ok is_str p ''name''" "field_ok is_str p ''value''"
    "field_ok is_str p ''unit''" "field_ok is_str p ''normal_range''"
    "field_ok is_str p ''status''" "field_ok is_str p ''explanation''"
    "field_ok is_opt_str p ''hindi_explanation''"
    by (simp_all add: parameter_ok_def p)
  obtain n where n: "v_str (get_or p ''name'' (PStr ''Unknown'')) = Some n"
    using field_str [OF f(1)] by blast
  obtain v where v: "v_str (get_or p ''value'' (PStr ''N/A'')) = Some v"
    using field_str [OF f(2)] by blast
  obtain u where u: "v_str (get_or p ''unit'' (PStr [])) = Some u"
    using field_str [OF f(3)] by blast
  obtain r where r: "v_str (get_or p ''normal_range'' (PStr ''N/A'')) = Some r"
    using field_str [OF f(4)] by blast
  obtain s where s: "v_str (get_or p ''status'' (PStr ''normal'')) = Some s"
    using field_str [OF f(5)] by blast
  obtain x where x: "v_str (get_or p ''explanation'' (PStr [])) = Some x"
    using field_str [OF f(6)] by blast
  obtain h where h: "v_opt_str (get_or p ''hindi_explanation'' PNone) = Some h"
    using field_opt_str [OF f(7)] by blast
  show ?thesis by (simp add: make_parameter_def p n v u r s x h)
qed

lemma parameters_ok_map_exn:
  "list_all parameter_ok ps \<Longrightarrow> \<exists>hps. map_exn make_parameter ps = Inr hps"
proof (induction ps)
  case Nil
  then show ?case by simp
next
  case (Cons p ps)
  then obtain hp hps where "make_parameter p = Inr hp" "map_exn make_parameter ps = Inr hps"
    using parameter_ok_make_parameter by fastforce
  then show ?case by simp
qed

lemma analysis_ok_make_report:
  assumes "analysis_ok a"
  shows "\<exists>report. make_report e img (PDict a) = Inr report"
proof -
  from assms have f: "field_ok is_str a ''report_type''" "field_ok is_str a ''title''"
    "field_ok is_str a ''summary''" "field_ok is_opt_str a ''hindi_summary''"
    "field_ok is_list_str a ''health_tips''" "field_ok is_opt_list_str a ''hindi_health_tips''"
    "field_ok is_str a ''overall_status''"
    by (simp_all add: analysis_ok_def)
  from assms have "\<exists>ps. get_or a ''parameters'' (PList []) = PList ps \<and> list_all parameter_ok ps"
    by (auto simp add: analysis_ok_def get_or_def split: option.splits pyval.splits)
  then obtain ps hps where ps: "iter_items (get_or a ''parameters'' (PList [])) = Inr ps"
    and hps: "map_exn make_parameter ps = Inr hps"
    using parameters_ok_map_exn by fastforce
  obtain rt where rt: "v_str (get_or a ''report_type'' (PStr ''blood_test'')) = Some rt"
    using field_str [OF f(1)] by blast
  obtain ti where ti: "v_str (get_or a ''title'' (PStr ''Medical Report'')) = Some ti"
    using field_str [OF f(2)] by blast
  obtain su where su: "v_str (get_or a ''summary'' (PStr ''Report analyzed successfully'')) = Some su"
    using field_str [OF f(3)] by blast
  obtain hs where hs: "v_opt_str (get_or a ''hindi_summary'' PNone) = Some hs"
    using field_opt_str [OF f(4)] by blast
  obtain ht where ht: "v_list_str (get_or a ''health_tips'' (PList [])) = Some ht"
    using field_list_str [OF f(5)] by blast
  obtain hht where hht: "v_opt_list_str (get_or a ''hindi_health_tips'' PNone) = Some hht"
    using field_opt_list_str [OF f(6)] by blast
  obtain os where os: "v_str (get_or a ''overall_status'' (PStr ''moderate'')) = Some os"
    using field_str [OF f(7)] by blast
  show ?thesis by (simp add: make_report_def ps hps rt ti su hs ht hht os)
qed

subsection \<open>Defaults\<close>

lemma defaults_on_success:
  assumes "req_image_base64 request \<noteq> []"
    and "EMERGENT_LLM_KEY e = Some key" and "key \<noteq> []"
    and "send_message e (req_image_base64 request) (req_language request) = Returns (Some response)"
    and "loads e (clean_response response) = Inr (PDict a)"
    and "analyze_report e w request = (Inr report, w')"
  shows "(dget a ''report_type'' = None \<longrightarrow> report_type report = ''blood_test'')
       \<and> (dget a ''title'' = None \<longrightarrow> title report = ''Medical Report'')
       \<and> (dget a ''summary'' = None \<longrightarrow> summary report = ''Report analyzed successfully'')
       \<and> (dget a ''health_tips'' = None \<longrightarrow> health_tips report = [])
       \<and> (dget a ''overall_status'' = None \<longrightarrow> overall_status report = ''moderate'')
       \<and> (dget a ''hindi_summary'' = None \<longrightarrow> hindi_summary report = None)
       \<and> (dget a ''hindi_health_tips'' = None \<longrightarrow> hindi_health_tips report = None)
       \<and> (dget a ''parameters'' = None \<longrightarrow> parameters report = [])
       \<and> (\<forall>ps. dget a ''parameters'' = Some (PList ps) \<longrightarrow>
             length (parameters report) = length ps
           \<and> (\<forall>i<length ps. \<exists>p. ps ! i = PDict p
               \<and> (dget p ''name'' = None \<longrightarrow> name (parameters report ! i) = ''Unknown'')
               \<and> (dget p ''value'' = None \<longrightarrow> pvalue (parameters report ! i) = ''N/A'')
               \<and> (dget p ''unit'' = None \<longrightarrow> unit (parameters report ! i) = [])
               \<and> (dget p ''normal_range'' = None \<longrightarrow> normal_range (parameters report ! i) = ''N/A'')
               \<and> (dget p ''status'' = None \<longrightarrow> status (parameters report ! i) = ''normal'')
               \<and> (dget p ''explanation'' = None \<longrightarrow> explanation (parameters report ! i) = [])
               \<and> (dget p ''hindi_explanation'' = None \<longrightarrow>
                    hindi_explanation (parameters report ! i) = None)))
       \<and> (\<forall>k v. k \<notin> {''report_type'', ''title'', ''summary'', ''hindi_summary'', ''parameters'',
                        ''health_tips'', ''hindi_health_tips'', ''overall_status''} \<longrightarrow>
             make_report e (req_image_base64 request) (PDict ((k, v) # a)) = Inr report)
       \<and> (\<forall>k v p. k \<notin> {''name'', ''value'', ''unit'', ''normal_range'', ''status'', ''explanation'',
                          ''hindi_explanation''} \<longrightarrow>
             make_parameter (PDict ((k, v) # p)) = make_parameter (PDict p))"
proof -
  have mr: "make_report e (req_image_base64 request) (PDict a) = Inr report"
    using analyze_report_parsed [OF assms(1-5), of w] assms(6)
    by (auto split: sum.splits)
  note f = make_report_fields [OF mr]
  have top: "(dget a ''report_type'' = None \<longrightarrow> report_type report = ''blood_test'')
       \<and> (dget a ''title'' = None \<longrightarrow> title report = ''Medical Report'')
       \<and> (dget a ''summary'' = None \<longrightarrow> summary report = ''Report analyzed successfully'')
       \<and> (dget a ''health_tips'' = None \<longrightarrow> health_tips report = [])
       \<and> (dget a ''overall_status'' = None \<longrightarrow> overall_status report = ''moderate'')
       \<and> (dget a ''hindi_summary'' = None \<longrightarrow> hindi_summary report = None)
       \<and> (dget a ''hindi_health_tips'' = None \<longrightarrow> hindi_health_tips report = None)"
    using f(1-7) by (auto simp: get_or_absent)
  obtain items where it: "iter_items (get_or a ''parameters'' (PList [])) = Inr items"
    and ms: "map_exn make_parameter items = Inr (parameters report)"
    using f(8) by blast
  have none: "dget a ''parameters'' = None \<longrightarrow> parameters report = []"
    using it ms by (auto simp: get_or_absent)
  have some: "\<forall>ps. dget a ''parameters'' = Some (PList ps) \<longrightarrow>
             length (parameters report) = length ps
           \<and> (\<forall>i<length ps. \<exists>p. ps ! i = PDict p
               \<and> (dget p ''name'' = None \<longrightarrow> name (parameters report ! i) = ''Unknown'')
               \<and> (dget p ''value'' = None \<longrightarrow> pvalue (parameters report ! i) = ''N/A'')
               \<and> (dget p ''unit'' = None \<longrightarrow> unit (parameters report ! i) = [])
               \<and> (dget p ''normal_range'' = None \<longrightarrow> normal_range (parameters report ! i) = ''N/A'')
               \<and> (dget p ''status'' = None \<longrightarrow> status (parameters report ! i) = ''normal'')
               \<and> (dget p ''explanation'' = None \<longrightarrow> explanation (parameters report ! i) = [])
               \<and> (dget p ''hindi_explanation'' = None \<longrightarrow>
                    hindi_explanation (parameters report ! i) = None))"
  proof (intro allI impI)
    fix ps assume ps: "dget a ''parameters'' = Some (PList ps)"
    then have "items = ps" using it by (simp add: get_or_def)
    with ms have m: "map_exn make_parameter ps = Inr (parameters report)" by simp
    note l = map_exn_Inr [OF m]
    show "length (parameters report) = length ps
           \<and> (\<forall>i<length ps. \<exists>p. ps ! i = PDict p
               \<and> (dget p ''name'' = None \<longrightarrow> name (parameters report ! i) = ''Unknown'')
               \<and> (dget p ''value'' = None \<longrightarrow> pvalue (parameters report ! i) = ''N/A'')
               \<and> (dget p ''unit'' = None \<longrightarrow> unit (parameters report ! i) = [])
               \<and> (dget p ''normal_range'' = None \<longrightarrow> normal_range (parameters report ! i) = ''N/A'')
               \<and> (dget p ''status'' = None \<longrightarrow> status (parameters report ! i) = ''normal'')
               \<and> (dget p ''explanation'' = None \<longrightarrow> explanation (parameters report ! i) = [])
               \<and> (dget p ''hindi_explanation'' = None \<longrightarrow>
                    hindi_explanation (parameters report ! i) = None))"
    proof (intro conjI allI impI)
      show "length (parameters report) = length ps" using l by simp
    next
      fix i assume "i < length ps"
      then have "make_parameter (ps ! i) = Inr (parameters report ! i)" using l by simp
      then show "\<exists>p. ps ! i = PDict p
               \<and> (dget p ''name'' = None \<longrightarrow> name (parameters report ! i) = ''Unknown'')
               \<and> (dget p ''value'' = None \<longrightarrow> pvalue (parameters report ! i) = ''N/A'')
               \<and> (dget p ''unit'' = None \<longrightarrow> unit (parameters report ! i) = [])
               \<and> (dget p ''normal_range'' = None \<longrightarrow> normal_range (parameters report ! i) = ''N/A'')
               \<and> (dget p ''status'' = None \<longrightarrow> status (parameters report ! i) = ''normal'')
               \<and> (dget p ''explanation'' = None \<longrightarrow> explanation (parameters report ! i) = [])
               \<and> (dget p ''hindi_explanation'' = None \<longrightarrow>
                    hindi_explanation (parameters report ! i) = None)"
        by (rule make_parameter_defaults)
    qed
  qed
  have extra: "\<forall>k v. k \<notin> {''report_type'', ''title'', ''summary'', ''hindi_summary'', ''parameters'',
                        ''health_tips'', ''hindi_health_tips'', ''overall_status''} \<longrightarrow>
             make_report e (req_image_base64 request) (PDict ((k, v) # a)) = Inr report"
    using make_report_extra mr by metis
  have pextra: "\<forall>k v p. k \<notin> {''name'', ''value'', ''unit'', ''normal_range'', ''status'', ''explanation'',
                          ''hindi_explanation''} \<longrightarrow>
             make_parameter (PDict ((k, v) # p)) = make_parameter (PDict p)"
    using make_parameter_extra by blast
  from top none some extra pextra show ?thesis by blast
qed

section \<open>Properties of the analysis endpoint\<close>

text \<open>
  C7. A request to analyze a report whose \<^verbatim>\<open>image_base64\<close> is the empty string is
  answered with status 400 and the detail "No image provided", whatever the environment
  and the state are; the state is returned as it was, so the count of calls to the LLM
  API has not moved: the gateway is not invoked.
\<close>

theorem analyze_report_empty_image:
  "analyze_report e w \<lparr>req_image_base64 = [], req_language = language\<rparr> =
     (Inl (HTTPException 400 (Text ''No image provided'')), w)
   \<and> llm_calls (snd (analyze_report e w \<lparr>req_image_base64 = [], req_language = language\<rparr>)) =
       llm_calls w"
  by (simp add: analyze_report_def)

text \<open>
  C4 (as amended). The image is present, the key is configured and the LLM returns a
  text. When \<^verbatim>\<open>json.loads\<close> rejects the cleaned text with a \<^verbatim>\<open>JSONDecodeError\<close>, the
  endpoint answers with status 500 and the detail "Failed to parse AI response". When
  \<^verbatim>\<open>json.loads\<close> raises another exception, it answers with status 500 and the detail
  "Error analyzing report: " followed by the text of the exception. When the cleaned
  text parses to a value that is not an object, it answers with status 500 and, as
  detail, the text of the \<^verbatim>\<open>AttributeError\<close> that \<^verbatim>\<open>analysis.get\<close> raises. Whatever the
  parser does, the LLM was called exactly once (no retry), and the backend flag, the
  database and the in-process collection are what they were: no report is stored.
\<close>

theorem analyze_report_unparseable:
  assumes "req_image_base64 request \<noteq> []"
    and "EMERGENT_LLM_KEY e = Some key" and "key \<noteq> []"
    and "send_message e (req_image_base64 request) (req_language request) = Returns (Some response)"
  shows "(\<forall>msg. loads e (clean_response response) = Inl (JSONDecodeError msg) \<longrightarrow>
            fst (analyze_report e w request) =
              Inl (HTTPException 500 (Text ''Failed to parse AI response'')))
       \<and> (\<forall>ex. loads e (clean_response response) = Inl ex \<and> \<not> is_JSONDecodeError ex \<longrightarrow>
            fst (analyze_report e w request) =
              Inl (HTTPException 500 (TextStrOf ''Error analyzing report: '' ex)))
       \<and> (\<forall>v. loads e (clean_response response) = Inr v \<and> (\<forall>a. v \<noteq> PDict a) \<longrightarrow>
            fst (analyze_report e w request) =
              Inl (HTTPException 500 (StrOf (no_attribute v ''get''))))
       \<and> snd (analyze_report e w request) = w\<lparr>llm_calls := llm_calls w + 1\<rparr>
       \<and> USE_MONGODB (snd (analyze_report e w request)) = USE_MONGODB w
       \<and> db (snd (analyze_report e w request)) = db w
       \<and> MEMORY_REPORTS (snd (analyze_report e w request)) = MEMORY_REPORTS w
       \<and> llm_calls (snd (analyze_report e w request)) = llm_calls w + 1"
proof -
  have a: "\<forall>msg. loads e (clean_response response) = Inl (JSONDecodeError msg) \<longrightarrow>
            fst (analyze_report e w request) =
              Inl (HTTPException 500 (Text ''Failed to parse AI response''))"
    using analyze_report_rejected [OF assms, of _ w] by simp
  have b: "\<forall>ex. loads e (clean_response response) = Inl ex \<and> \<not> is_JSONDecodeError ex \<longrightarrow>
            fst (analyze_report e w request) =
              Inl (HTTPException 500 (TextStrOf ''Error analyzing report: '' ex))"
    using analyze_report_rejected [OF assms, of _ w] by simp
  have c: "\<forall>v. loads e (clean_response response) = Inr v \<and> (\<forall>a. v \<noteq> PDict a) \<longrightarrow>
            fst (analyze_report e w request) =
              Inl (HTTPException 500 (StrOf (no_attribute v ''get'')))"
    using analyze_report_parsed [OF assms, of _ w] make_report_not_object [of _ e]
    by simp
  note d = analyze_report_world [OF assms, of w]
  from a b c d show ?thesis by simp
qed

theorem analyze_report_unparseable_witness:
  "analyze_report sample_env memory_world \<lparr>req_image_base64 = ''Tk8='', req_language = ''english''\<rparr> =
     (Inl (HTTPException 500 (Text ''Failed to parse AI response'')),
      \<lparr>USE_MONGODB = False, db = None, MEMORY_REPORTS = [], llm_calls = 1\<rparr>)
   \<and> analyze_report sample_env memory_two \<lparr>req_image_base64 = ''REVFUA=='', req_language = ''hindi''\<rparr> =
     (Inl (HTTPException 500
            (TextStrOf ''Error analyzing report: ''
               (RecursionError (''maximum recursion depth exceeded while decoding '' @
                                ''a JSON array from a unicode string'')))),
      memory_two\<lparr>llm_calls := 1\<rparr>)
   \<and> analyze_report sample_env mongo_two \<lparr>req_image_base64 = ''W10='', req_language = ''english''\<rparr> =
     (Inl (HTTPException 500 (StrOf (no_attribute (PList []) ''get''))),
      mongo_two\<lparr>llm_calls := 1\<rparr>)"
proof -
  let ?r = "\<lparr>req_image_base64 = ''Tk8='', req_language = ''english''\<rparr>"
  let ?d = "\<lparr>req_image_base64 = ''REVFUA=='', req_language = ''hindi''\<rparr>"
  let ?l = "\<lparr>req_image_base64 = ''W10='', req_language = ''english''\<rparr>"
  have k: "EMERGENT_LLM_KEY sample_env = Some ''key''" "''key'' \<noteq> []"
    by (simp_all add: sample_env_def)
  have r1: "req_image_base64 ?r \<noteq> []" by simp
  have r4: "send_message sample_env (req_image_base64 ?r) (req_language ?r) =
             Returns (Some ''Sorry, I cannot read this image.'')"
    by (simp add: sample_env_def sample_send_message_def)
  have r5: "loads sample_env (clean_response ''Sorry, I cannot read this image.'') =
             Inl (JSONDecodeError ''Expecting value: line 1 column 1 (char 0)'')"
    by (simp add: sample_env_def text_defs sample_loads_sorry)
  have d1: "req_image_base64 ?d \<noteq> []" by simp
  have d4: "send_message sample_env (req_image_base64 ?d) (req_language ?d) =
             Returns (Some deep_text)"
    by (simp add: sample_env_def sample_send_message_def)
  have d5: "loads sample_env (clean_response deep_text) =
             Inl (RecursionError (''maximum recursion depth exceeded while decoding '' @
                                  ''a JSON array from a unicode string''))
            \<and> \<not> is_JSONDecodeError
                  (RecursionError (''maximum recursion depth exceeded while decoding '' @
                                   ''a JSON array from a unicode string''))"
    by (simp add: sample_env_def clean_response_deep sample_loads_deep)
  have l1: "req_image_base64 ?l \<noteq> []" by simp
  have l4: "send_message sample_env (req_image_base64 ?l) (req_language ?l) =
             Returns (Some ''[]'')"
    by (simp add: sample_env_def sample_send_message_def)
  have l5: "loads sample_env (clean_response ''[]'') = Inr (PList []) \<and> (\<forall>a. PList [] \<noteq> PDict a)"
    by (simp add: sample_defs text_defs)
  note tr = analyze_report_unparseable [OF r1 k r4, of memory_world]
  note td = analyze_report_unparseable [OF d1 k d4, of memory_two]
  note tl = analyze_report_unparseable [OF l1 k l4, of mongo_two]
  from tr r5 have a: "fst (analyze_report sample_env memory_world ?r) =
      Inl (HTTPException 500 (Text ''Failed to parse AI response''))"
    by blast
  from tr have a': "snd (analyze_report sample_env memory_world ?r) =
      memory_world\<lparr>llm_calls := llm_calls memory_world + 1\<rparr>"
    by blast
  from td d5 have b: "fst (analyze_report sample_env memory_two ?d) =
      Inl (HTTPException 500
            (TextStrOf ''Error analyzing report: ''
               (RecursionError (''maximum recursion depth exceeded while decoding '' @
                                ''a JSON array from a unicode string''))))"
    by blast
  from td have b': "snd (analyze_report sample_env memory_two ?d) =
      memory_two\<lparr>llm_calls := llm_calls memory_two + 1\<rparr>"
    by blast
  from tl l5 have c: "fst (analyze_report sample_env mongo_two ?l) =
      Inl (HTTPException 500 (StrOf (no_attribute (PList []) ''get'')))"
    by blast
  from tl have c': "snd (analyze_report sample_env mongo_two ?l) =
      mongo_two\<lparr>llm_calls := llm_calls mongo_two + 1\<rparr>"
    by blast
  have m: "llm_calls memory_world = 0" "llm_calls memory_two = 0" "llm_calls mongo_two = 0"
    by (simp_all add: memory_world_def memory_two_def mongo_two_def mongo_world_def)
  have w: "memory_world\<lparr>llm_calls := llm_calls memory_world + 1\<rparr> =
      \<lparr>USE_MONGODB = False, db = None, MEMORY_REPORTS = [], llm_calls = 1\<rparr>"
    by (simp add: memory_world_def)
  from a a' [unfolded w] b b' c c' show ?thesis
    by (simp add: prod_eq_iff m)
qed

text \<open>
  The claim as stated fails for a reply that is JSON but not an object, and for a reply
  on which the parser fails with another exception than a \<^verbatim>\<open>JSONDecodeError\<close>. The reply
  \<^verbatim>\<open>[]\<close> is answered with status 500, but the detail is the text of an
  \<^verbatim>\<open>AttributeError\<close>; a reply of 2000 opening brackets is answered with status 500, but
  the detail is "Error analyzing report: " and the text of a \<^verbatim>\<open>RecursionError\<close>. Neither
  is the signal of a parse failure.
\<close>

theorem analyze_report_list_reply:
  "send_message sample_env ''W10='' ''english'' = Returns (Some ''[]'')
   \<and> loads sample_env (clean_response ''[]'') = Inr (PList [])
   \<and> analyze_report sample_env memory_world \<lparr>req_image_base64 = ''W10='', req_language = ''english''\<rparr> =
       (Inl (HTTPException 500
              (StrOf (AttributeError
                 ([CHR 0x27] @ ''list'' @ [CHR 0x27] @ '' object has no attribute '' @
                  [CHR 0x27] @ ''get'' @ [CHR 0x27])))),
        memory_world\<lparr>llm_calls := 1\<rparr>)
   \<and> fst (analyze_report sample_env memory_world
             \<lparr>req_image_base64 = ''W10='', req_language = ''english''\<rparr>) \<noteq>
       Inl (HTTPException 500 (Text ''Failed to parse AI response''))
   \<and> send_message sample_env ''REVFUA=='' ''english'' = Returns (Some (replicate 2000 (CHR ''['')))
   \<and> analyze_report sample_env memory_world
         \<lparr>req_image_base64 = ''REVFUA=='', req_language = ''english''\<rparr> =
       (Inl (HTTPException 500
              (TextStrOf ''Error analyzing report: ''
                 (RecursionError (''maximum recursion depth exceeded while decoding '' @
                                  ''a JSON array from a unicode string'')))),
        memory_world\<lparr>llm_calls := 1\<rparr>)"
proof -
  have a: "send_message sample_env ''W10='' ''english'' = Returns (Some ''[]'')
   \<and> loads sample_env (clean_response ''[]'') = Inr (PList [])
   \<and> analyze_report sample_env memory_world \<lparr>req_image_base64 = ''W10='', req_language = ''english''\<rparr> =
       (Inl (HTTPException 500
              (StrOf (AttributeError
                 ([CHR 0x27] @ ''list'' @ [CHR 0x27] @ '' object has no attribute '' @
                  [CHR 0x27] @ ''get'' @ [CHR 0x27])))),
        memory_world\<lparr>llm_calls := 1\<rparr>)"
    by (simp add: sample_defs text_defs analyze_defs no_attribute_def)
  have b: "send_message sample_env ''REVFUA=='' ''english'' = Returns (Some deep_text)"
    by (simp add: sample_env_def sample_send_message_def)
  have c: "loads sample_env (clean_response deep_text) =
      Inl (RecursionError (''maximum recursion depth exceeded while decoding '' @
                           ''a JSON array from a unicode string''))"
    by (simp add: sample_env_def clean_response_deep sample_loads_deep)
  have d: "analyze_report sample_env memory_world
         \<lparr>req_image_base64 = ''REVFUA=='', req_language = ''english''\<rparr> =
       (Inl (HTTPException 500
              (TextStrOf ''Error analyzing report: ''
                 (RecursionError (''maximum recursion depth exceeded while decoding '' @
                                  ''a JSON array from a unicode string'')))),
        memory_world\<lparr>llm_calls := 1\<rparr>)"
    using b c
    by (simp add: analyze_report_def analyze_medical_report_def sample_env_def memory_world_def)
  from a b d show ?thesis by (simp add: deep_text_def)
qed

text \<open>
  C3 (as amended). The reply parses to an object. When every expected field that the
  object holds is of the type that the report models declare for it (a string for
  report_type, title, summary and overall_status; a string or \<^verbatim>\<open>null\<close> for the Hindi
  summary; a list of strings for health_tips, or \<^verbatim>\<open>null\<close> for the Hindi tips; for
  parameters a list of objects whose fields are strings, the Hindi explanation possibly
  \<^verbatim>\<open>null\<close>), the analysis succeeds, after one call to the LLM. Whenever the analysis
  succeeds, every expected field that the object lacks has its default in the report:
  report_type "blood_test", title "Medical Report", summary "Report analyzed
  successfully", health_tips the empty list, overall_status "moderate"; an absent Hindi
  summary or Hindi tips list stays absent, and an absent parameters list gives no
  parameters. Every element of a parameters list is an object and gives one parameter,
  in order, whose absent fields are name "Unknown", value "N/A", unit "", normal_range
  "N/A", status "normal", explanation "" and no Hindi explanation. A field that is not
  expected, in the object or in a parameter, changes nothing: the same report is built
  with it as without it.
\<close>

theorem analyze_report_defaults:
  assumes "req_image_base64 request \<noteq> []"
    and "EMERGENT_LLM_KEY e = Some key" and "key \<noteq> []"
    and "send_message e (req_image_base64 request) (req_language request) = Returns (Some response)"
    and "loads e (clean_response response) = Inr (PDict a)"
  shows "(analysis_ok a \<longrightarrow>
           (\<exists>report. analyze_report e w request =
                      (Inr report, w\<lparr>llm_calls := llm_calls w + 1\<rparr>)))
       \<and> (\<forall>report w'. analyze_report e w request = (Inr report, w') \<longrightarrow>
         (dget a ''report_type'' = None \<longrightarrow> report_type report = ''blood_test'')
          \<and> (dget a ''title'' = None \<longrightarrow> title report = ''Medical Report'')
          \<and> (dget a ''summary'' = None \<longrightarrow> summary report = ''Report analyzed successfully'')
          \<and> (dget a ''health_tips'' = None \<longrightarrow> health_tips report = [])
          \<and> (dget a ''overall_status'' = None \<longrightarrow> overall_status report = ''moderate'')
          \<and> (dget a ''hindi_summary'' = None \<longrightarrow> hindi_summary report = None)
          \<and> (dget a ''hindi_health_tips'' = None \<longrightarrow> hindi_health_tips report = None)
          \<and> (dget a ''parameters'' = None \<longrightarrow> parameters report = [])
          \<and> (\<forall>ps. dget a ''parameters'' = Some (PList ps) \<longrightarrow>
                length (parameters report) = length ps
              \<and> (\<forall>i<length ps. \<exists>p. ps ! i = PDict p
                  \<and> (dget p ''name'' = None \<longrightarrow> name (parameters report ! i) = ''Unknown'')
                  \<and> (dget p ''value'' = None \<longrightarrow> pvalue (parameters report ! i) = ''N/A'')
                  \<and> (dget p ''unit'' = None \<longrightarrow> unit (parameters report ! i) = [])
                  \<and> (dget p ''normal_range'' = None \<longrightarrow> normal_range (parameters report ! i) = ''N/A'')
                  \<and> (dget p ''status'' = None \<longrightarrow> status (parameters report ! i) = ''normal'')
                  \<and> (dget p ''explanation'' = None \<longrightarrow> explanation (parameters report ! i) = [])
                  \<and> (dget p ''hindi_explanation'' = None \<longrightarrow>
                       hindi_explanation (parameters report ! i) = None)))
          \<and> (\<forall>k v. k \<notin> {''report_type'', ''title'', ''summary'', ''hindi_summary'', ''parameters'',
                           ''health_tips'', ''hindi_health_tips'', ''overall_status''} \<longrightarrow>
                make_report e (req_image_base64 request) (PDict ((k, v) # a)) = Inr report)
          \<and> (\<forall>k v p. k \<notin> {''name'', ''value'', ''unit'', ''normal_range'', ''status'', ''explanation'',
                             ''hindi_explanation''} \<longrightarrow>
                make_parameter (PDict ((k, v) # p)) = make_parameter (PDict p)))"
proof (rule conjI)
  show "analysis_ok a \<longrightarrow>
           (\<exists>report. analyze_report e w request =
                      (Inr report, w\<lparr>llm_calls := llm_calls w + 1\<rparr>))"
  proof
    assume "analysis_ok a"
  then obtain report where "make_report e (req_image_base64 request) (PDict a) = Inr report"
    using analysis_ok_make_report by blast
    with analyze_report_parsed [OF assms, of w]
    show "\<exists>report. analyze_report e w request =
                    (Inr report, w\<lparr>llm_calls := llm_calls w + 1\<rparr>)"
      by simp
  qed
next
  have "(dget a ''report_type'' = None \<longrightarrow> report_type report = ''blood_test'')
          \<and> (dget a ''title'' = None \<longrightarrow> title report = ''Medical Report'')
          \<and> (dget a ''summary'' = None \<longrightarrow> summary report = ''Report analyzed successfully'')
          \<and> (dget a ''health_tips'' = None \<longrightarrow> health_tips report = [])
          \<and> (dget a ''overall_status'' = None \<longrightarrow> overall_status report = ''moderate'')
          \<and> (dget a ''hindi_summary'' = None \<longrightarrow> hindi_summary report = None)
          \<and> (dget a ''hindi_health_tips'' = None \<longrightarrow> hindi_health_tips report = None)
          \<and> (dget a ''parameters'' = None \<longrightarrow> parameters report = [])
          \<and> (\<forall>ps. dget a ''parameters'' = Some (PList ps) \<longrightarrow>
                length (parameters report) = length ps
              \<and> (\<forall>i<length ps. \<exists>p. ps ! i = PDict p
                  \<and> (dget p ''name'' = None \<longrightarrow> name (parameters report ! i) = ''Unknown'')
                  \<and> (dget p ''value'' = None \<longrightarrow> pvalue (parameters report ! i) = ''N/A'')
                  \<and> (dget p ''unit'' = None \<longrightarrow> unit (parameters report ! i) = [])
                  \<and> (dget p ''normal_range'' = None \<longrightarrow> normal_range (parameters report ! i) = ''N/A'')
                  \<and> (dget p ''status'' = None \<longrightarrow> status (parameters report ! i) = ''normal'')
                  \<and> (dget p ''explanation'' = None \<longrightarrow> explanation (parameters report ! i) = [])
                  \<and> (dget p ''hindi_explanation'' = None \<longrightarrow>
                       hindi_explanation (parameters report ! i) = None)))
          \<and> (\<forall>k v. k \<notin> {''report_type'', ''title'', ''summary'', ''hindi_summary'', ''parameters'',
                           ''health_tips'', ''hindi_health_tips'', ''overall_status''} \<longrightarrow>
                make_report e (req_image_base64 request) (PDict ((k, v) # a)) = Inr report)
          \<and> (\<forall>k v p. k \<notin> {''name'', ''value'', ''unit'', ''normal_range'', ''status'', ''explanation'',
                             ''hindi_explanation''} \<longrightarrow>
                make_parameter (PDict ((k, v) # p)) = make_parameter (PDict p))"
    if "analyze_report e w request = (Inr report, w')" for report w'
    using assms that by (rule defaults_on_success)
  then show "\<forall>report w'. analyze_report e w request = (Inr report, w') \<longrightarrow>
         (dget a ''report_type'' = None \<longrightarrow> report_type report = ''blood_test'')
          \<and> (dget a ''title'' = None \<longrightarrow> title report = ''Medical Report'')
          \<and> (dget a ''summary'' = None \<longrightarrow> summary report = ''Report analyzed successfully'')
          \<and> (dget a ''health_tips'' = None \<longrightarrow> health_tips report = [])
          \<and> (dget a ''overall_status'' = None \<longrightarrow> overall_status report = ''moderate'')
          \<and> (dget a ''hindi_summary'' = None \<longrightarrow> hindi_summary report = None)
          \<and> (dget a ''hindi_health_tips'' = None \<longrightarrow> hindi_health_tips report = None)
          \<and> (dget a ''parameters'' = None \<longrightarrow> parameters report = [])
          \<and> (\<forall>ps. dget a ''parameters'' = Some (PList ps) \<longrightarrow>
                length (parameters report) = length ps
              \<and> (\<forall>i<length ps. \<exists>p. ps ! i = PDict p
                  \<and> (dget p ''name'' = None \<longrightarrow> name (parameters report ! i) = ''Unknown'')
                  \<and> (dget p ''value'' = None \<longrightarrow> pvalue (parameters report ! i) = ''N/A'')
                  \<and> (dget p ''unit'' = None \<longrightarrow> unit (parameters report ! i) = [])
                  \<and> (dget p ''normal_range'' = None \<longrightarrow> normal_range (parameters report ! i) = ''N/A'')
                  \<and> (dget p ''status'' = None \<longrightarrow> status (parameters report ! i) = ''normal'')
                  \<and> (dget p ''explanation'' = None \<longrightarrow> explanation (parameters report ! i) = [])
                  \<and> (dget p ''hindi_explanation'' = None \<longrightarrow>
                       hindi_explanation (parameters report ! i) = None)))
          \<and> (\<forall>k v. k \<notin> {''report_type'', ''title'', ''summary'', ''hindi_summary'', ''parameters'',
                           ''health_tips'', ''hindi_health_tips'', ''overall_status''} \<longrightarrow>
                make_report e (req_image_base64 request) (PDict ((k, v) # a)) = Inr report)
          \<and> (\<forall>k v p. k \<notin> {''name'', ''value'', ''unit'', ''normal_range'', ''status'', ''explanation'',
                             ''hindi_explanation''} \<longrightarrow>
                make_parameter (PDict ((k, v) # p)) = make_parameter (PDict p))"
    by blast
qed

theorem analyze_report_defaults_witness:
  "analysis_ok [(''title'', PStr ''Complete Blood Count''),
               (''parameters'', PList [PDict [(''name'', PStr ''Hemoglobin''), (''flag'', PInt 1)]]),
               (''confidence'', PFloat 1)]
   \<and> analyze_report sample_env memory_world \<lparr>req_image_base64 = ''Q0JD'', req_language = ''english''\<rparr> =
     (Inr sample_analyzed, memory_world\<lparr>llm_calls := 1\<rparr>)
   \<and> report_type sample_analyzed = ''blood_test''
   \<and> summary sample_analyzed = ''Report analyzed successfully''
   \<and> health_tips sample_analyzed = []
   \<and> overall_status sample_analyzed = ''moderate''
   \<and> hindi_summary sample_analyzed = None
   \<and> hindi_health_tips sample_analyzed = None
   \<and> length (parameters sample_analyzed) = 1"
proof -
  let ?r = "\<lparr>req_image_base64 = ''Q0JD'', req_language = ''english''\<rparr>"
  let ?a = "[(''title'', PStr ''Complete Blood Count''),
             (''parameters'', PList [PDict [(''name'', PStr ''Hemoglobin''), (''flag'', PInt 1)]]),
             (''confidence'', PFloat 1)]"
  let ?resp = "'' ```json'' @ [CHR 0x0A] @ sample_text @ [CHR 0x0A] @ ''```''"
  have 1: "req_image_base64 ?r \<noteq> []" by simp
  have 2: "EMERGENT_LLM_KEY sample_env = Some ''key''" by (simp add: sample_env_def)
  have 3: "''key'' \<noteq> []" by simp
  have 4: "send_message sample_env (req_image_base64 ?r) (req_language ?r) = Returns (Some ?resp)"
    by (simp add: sample_env_def sample_send_message_def)
  have 5: "loads sample_env (clean_response ?resp) = Inr (PDict ?a)"
    by (simp add: sample_defs text_defs)
  have ok: "analysis_ok ?a"
    by (simp add: analysis_ok_def parameter_ok_def field_ok_def dget_def)
  note t = analyze_report_defaults [OF 1 2 3 4 5, of memory_world]
  from t [THEN conjunct1] ok obtain report where
    s: "analyze_report sample_env memory_world ?r =
          (Inr report, memory_world\<lparr>llm_calls := llm_calls memory_world + 1\<rparr>)"
    by blast
  have 6: "analyze_report sample_env memory_world ?r =
             (Inr sample_analyzed, memory_world\<lparr>llm_calls := 1\<rparr>)"
    using s by (simp add: sample_defs text_defs analyze_defs sample_analyzed_def)
  note c = t [THEN conjunct2, THEN spec, THEN spec, THEN mp, OF 6]
  from c have d: "report_type sample_analyzed = ''blood_test''
      \<and> summary sample_analyzed = ''Report analyzed successfully''
      \<and> health_tips sample_analyzed = []
      \<and> overall_status sample_analyzed = ''moderate''
      \<and> hindi_summary sample_analyzed = None
      \<and> hindi_health_tips sample_analyzed = None
      \<and> length (parameters sample_analyzed) = 1"
    by (simp add: dget_def)
  from ok 6 d show ?thesis by simp
qed

text \<open>
  The claim as stated fails for a parsed object that holds an expected field of another
  type: for a reply whose only field is a title that is \<^verbatim>\<open>null\<close> no report is built
  and no default is substituted, the constructor of \<^verbatim>\<open>AnalyzedReport\<close> rejects the
  title and the endpoint answers with status 500.
\<close>

theorem analyze_report_null_title:
  "send_message sample_env ''TlVMTA=='' ''english'' = Returns (Some null_title_text)
   \<and> loads sample_env (clean_response null_title_text) = Inr (PDict [(''title'', PNone)])
   \<and> analyze_report sample_env memory_world
         \<lparr>req_image_base64 = ''TlVMTA=='', req_language = ''english''\<rparr> =
       (Inl (HTTPException 500 (StrOf (ValidationError ''AnalyzedReport''))),
        memory_world\<lparr>llm_calls := 1\<rparr>)"
  by (simp add: sample_defs text_defs analyze_defs)

text \<open>
  C10 (as amended). The returned report's \<^verbatim>\<open>image_base64\<close> is the first 100 characters
  of the request's image followed by three dots, so it never exceeds 103 characters. For
  an image of more than 100 characters this is a proper prefix of the image; an image
  of at most 100 characters is kept whole, with the dots appended.
\<close>

theorem analyze_report_image_prefix:
  assumes "analyze_report e w request = (Inr report, w')"
  shows "image_base64 report = Some (take 100 (req_image_base64 request) @ ''...'')
       \<and> length (take 100 (req_image_base64 request) @ ''...'') \<le> 103
       \<and> (100 < length (req_image_base64 request) \<longrightarrow>
            take 100 (req_image_base64 request) \<noteq> req_image_base64 request)
       \<and> (length (req_image_base64 request) \<le> 100 \<longrightarrow>
            take 100 (req_image_base64 request) = req_image_base64 request)"
proof -
  obtain analysis where "make_report e (req_image_base64 request) analysis = Inr report"
    using analyze_report_Inr [OF assms] by blast
  then have "image_base64 report = Some (take 100 (req_image_base64 request) @ ''...'')"
    by (rule make_report_image)
  moreover have "100 < length (req_image_base64 request) \<Longrightarrow>
      take 100 (req_image_base64 request) \<noteq> req_image_base64 request"
  proof
    assume a: "100 < length (req_image_base64 request)"
      and b: "take 100 (req_image_base64 request) = req_image_base64 request"
    have "length (take 100 (req_image_base64 request)) = 100" using a by simp
    with a b show False by simp
  qed
  ultimately show ?thesis by simp
qed

theorem analyze_report_image_prefix_witness:
  "analyze_report sample_env memory_world \<lparr>req_image_base64 = long_image, req_language = ''english''\<rparr> =
     (Inr (empty_analysis long_image), memory_world\<lparr>llm_calls := 1\<rparr>)
   \<and> image_base64 (empty_analysis long_image) = Some (take 100 long_image @ ''...'')
   \<and> length (take 100 long_image @ ''...'') \<le> 103
   \<and> 100 < length long_image
   \<and> take 100 long_image \<noteq> long_image"
proof -
  let ?r = "\<lparr>req_image_base64 = long_image, req_language = ''english''\<rparr>"
  have 1: "analyze_report sample_env memory_world ?r =
             (Inr (empty_analysis long_image), memory_world\<lparr>llm_calls := 1\<rparr>)"
    by (simp add: sample_defs text_defs analyze_defs empty_analysis_def long_image_def
        test_image_def)
  have 2: "100 < length long_image" by (simp add: long_image_def test_image_def)
  from analyze_report_image_prefix [OF 1] 1 2 show ?thesis by simp
qed

text \<open>
  The claim as stated fails for a short image: for the 96 characters of the image of
  \<^verbatim>\<open>analyze_test.py\<close> the field holds the full image, followed by the dots.
\<close>

theorem analyze_report_short_image_whole:
  "analyze_report sample_env memory_world \<lparr>req_image_base64 = test_image, req_language = ''english''\<rparr> =
     (Inr (empty_analysis test_image), memory_world\<lparr>llm_calls := 1\<rparr>)
   \<and> image_base64 (empty_analysis test_image) = Some (test_image @ ''...'')
   \<and> length test_image = 96"
  by (simp add: sample_defs text_defs analyze_defs empty_analysis_def test_image_def)

section \<open>Properties of the normalizer\<close>

text \<open>
  C2 (as amended). The reply is trimmed, a leading \<^verbatim>\<open>```json\<close> is removed if present, then
  a leading \<^verbatim>\<open>```\<close> if present, then a trailing \<^verbatim>\<open>```\<close> if present, and the rest is
  trimmed; no step is repeated. So the normalizer agrees with the single strip of one
  leading and one trailing marker except on a text that begins, after trimming, with
  \<^verbatim>\<open>```json```\<close>: there both leading markers are removed. A text \<open>t\<close> whose trimmed
  form neither begins nor ends with a fence, wrapped in \<^verbatim>\<open>```json\<close> and \<^verbatim>\<open>```\<close> (with
  whitespace around the block), is cleaned to the trimmed \<open>t\<close>, as \<open>t\<close> itself is, so both
  are parsed to the same result; the same holds for a wrap in bare fences when \<open>t\<close> does
  not begin with "json".
\<close>

theorem clean_response_fences:
  "(\<not> startswith (strip s) ''```json```'' \<longrightarrow> clean_response s = spec_strip_single_fence s)
 \<and> (startswith (strip s) ''```json```'' \<longrightarrow>
       clean_response s =
         strip (if endswith (drop 10 (strip s)) ''```''
                then take (length (drop 10 (strip s)) - 3) (drop 10 (strip s))
                else drop 10 (strip s)))
 \<and> ((\<forall>c\<in>set a. isspace c) \<and> (\<forall>c\<in>set b. isspace c)
      \<and> \<not> startswith (strip t) ''```'' \<and> \<not> endswith (strip t) ''```'' \<longrightarrow>
       clean_response (a @ ''```json'' @ t @ ''```'' @ b) = strip t
     \<and> clean_response t = strip t
     \<and> loads e (clean_response (a @ ''```json'' @ t @ ''```'' @ b)) = loads e (clean_response t))
 \<and> ((\<forall>c\<in>set a. isspace c) \<and> (\<forall>c\<in>set b. isspace c) \<and> \<not> startswith t ''json''
      \<and> \<not> startswith (strip t) ''```'' \<and> \<not> endswith (strip t) ''```'' \<longrightarrow>
       clean_response (a @ ''```'' @ t @ ''```'' @ b) = strip t
     \<and> loads e (clean_response (a @ ''```'' @ t @ ''```'' @ b)) = loads e (clean_response t))"
proof (intro conjI impI)
  assume "\<not> startswith (strip s) ''```json```''"
  then show "clean_response s = spec_strip_single_fence s" by (rule fence_single)
next
  assume "startswith (strip s) ''```json```''"
  then show "clean_response s =
         strip (if endswith (drop 10 (strip s)) ''```''
                then take (length (drop 10 (strip s)) - 3) (drop 10 (strip s))
                else drop 10 (strip s))" by (rule fence_double)
next
  assume h: "(\<forall>c\<in>set a. isspace c) \<and> (\<forall>c\<in>set b. isspace c)
      \<and> \<not> startswith (strip t) ''```'' \<and> \<not> endswith (strip t) ''```''"
  then have nt: "\<not> startswith t ''```''" using strip_keeps_fence by blast
  from h nt show w: "clean_response (a @ ''```json'' @ t @ ''```'' @ b) = strip t"
    by (intro fence_json_wrap) auto
  from h show u: "clean_response t = strip t" by (intro fence_none) auto
  from w u show "loads e (clean_response (a @ ''```json'' @ t @ ''```'' @ b)) =
      loads e (clean_response t)" by simp
next
  assume h: "(\<forall>c\<in>set a. isspace c) \<and> (\<forall>c\<in>set b. isspace c) \<and> \<not> startswith t ''json''
      \<and> \<not> startswith (strip t) ''```'' \<and> \<not> endswith (strip t) ''```''"
  then show w: "clean_response (a @ ''```'' @ t @ ''```'' @ b) = strip t"
    by (intro fence_bare_wrap) auto
  from h have u: "clean_response t = strip t" by (intro fence_none) auto
  from w u show "loads e (clean_response (a @ ''```'' @ t @ ''```'' @ b)) =
      loads e (clean_response t)" by simp
qed

text \<open>
  The claim as stated fails: from \<^verbatim>\<open>```json```x\<close> the normalizer removes two leading
  markers, where a single strip attempt on the leading side leaves \<^verbatim>\<open>```x\<close>.
\<close>

theorem clean_response_two_markers:
  "clean_response ''```json```x'' = ''x'' \<and> spec_strip_single_fence ''```json```x'' = ''```x''"
  by (simp add: text_defs spec_strip_single_fence_def)

theorem clean_response_fences_witness:
  "clean_response ''```{}```'' = spec_strip_single_fence ''```{}```''
 \<and> clean_response ''```json```x'' = ''x''
 \<and> clean_response ('' '' @ ''```json'' @ ([CHR 0x0A] @ ''{}'' @ [CHR 0x0A]) @ ''```'' @ [CHR 0x0A]) = ''{}''
 \<and> loads sample_env (clean_response ('' '' @ ''```json'' @ ([CHR 0x0A] @ ''{}'' @ [CHR 0x0A]) @ ''```'' @ [CHR 0x0A])) =
     loads sample_env (clean_response ([CHR 0x0A] @ ''{}'' @ [CHR 0x0A]))
 \<and> clean_response ([] @ ''```'' @ ''{}'' @ ''```'' @ []) = ''{}''"
proof -
  let ?t = "[CHR 0x0A] @ ''{}'' @ [CHR 0x0A]"
  have st: "strip ?t = ''{}''" "strip ''{}'' = ''{}''" by (simp_all add: strip_def isspace_def)
  have 1: "\<not> startswith (strip ''```{}```'') ''```json```''"
    by (simp add: strip_def isspace_def startswith_def)
  have 2: "startswith (strip ''```json```x'') ''```json```''"
    by (simp add: strip_def isspace_def startswith_def)
  have 3: "(\<forall>c\<in>set '' ''. isspace c) \<and> (\<forall>c\<in>set [CHR 0x0A]. isspace c)
      \<and> \<not> startswith (strip ?t) ''```'' \<and> \<not> endswith (strip ?t) ''```''"
    by (simp add: strip_def isspace_def startswith_def endswith_def)
  have 4: "(\<forall>c\<in>set []. isspace c) \<and> (\<forall>c\<in>set []. isspace c) \<and> \<not> startswith ''{}'' ''json''
      \<and> \<not> startswith (strip ''{}'') ''```'' \<and> \<not> endswith (strip ''{}'') ''```''"
    by (simp add: strip_def isspace_def startswith_def endswith_def)
  have a: "clean_response ''```{}```'' = spec_strip_single_fence ''```{}```''"
    using clean_response_fences [of "''```{}```''"] 1 by blast
  have b0: "clean_response ''```json```x'' =
         strip (if endswith (drop 10 (strip ''```json```x'')) ''```''
                then take (length (drop 10 (strip ''```json```x'')) - 3)
                       (drop 10 (strip ''```json```x''))
                else drop 10 (strip ''```json```x''))"
    using clean_response_fences [of "''```json```x''"] 2 by blast
  have b: "clean_response ''```json```x'' = ''x''"
    unfolding b0 by (simp add: strip_def isspace_def endswith_def)
  have c: "clean_response ('' '' @ ''```json'' @ ?t @ ''```'' @ [CHR 0x0A]) = strip ?t
     \<and> clean_response ?t = strip ?t
     \<and> loads sample_env (clean_response ('' '' @ ''```json'' @ ?t @ ''```'' @ [CHR 0x0A])) =
       loads sample_env (clean_response ?t)"
    using clean_response_fences [of _ "'' ''" "[CHR 0x0A]" ?t sample_env] 3 by blast
  have d: "clean_response ([] @ ''```'' @ ''{}'' @ ''```'' @ []) = strip ''{}''"
    using clean_response_fences [of _ "[]" "[]" "''{}''"] 4 by blast
  from a b c d st show ?thesis by simp
qed

section \<open>Properties of the comparison endpoint\<close>

text \<open>
  C6. When the database handle is absent (no durable backend is configured), a request
  to compare reports that carries at least two identifiers is answered with status 500:
  the first lookup dereferences the absent handle, and the detail is the text of that
  AttributeError. This holds for every content of the in-process collection, which is
  never read, and the state is left as it was.
\<close>

theorem compare_reports_without_db:
  assumes "db w = None" and "2 \<le> length (report_ids request)"
  shows "compare_reports e w request =
           (Inl (HTTPException 500 (StrOf (no_attribute PNone ''reports''))), w)"
proof -
  obtain rid rest where ids: "report_ids request = rid # rest"
    using assms(2) by (cases "report_ids request") auto
  have "fetch_reports e w (rid # rest) = Inl (no_attribute PNone ''reports'')"
    using assms(1) by (simp add: find_one_def)
  then show ?thesis
    using assms(2) by (auto simp add: compare_reports_def ids simp del: fetch_reports.simps)
qed

theorem compare_reports_without_db_witness:
  "compare_reports sample_env
     (memory_world\<lparr>MEMORY_REPORTS := [sample_saved ''a'' ''13.1'' ''normal'' 1704067200000000,
                                       sample_saved ''b'' ''11.2'' ''low'' 1704153600000000]\<rparr>)
     \<lparr>report_ids = [''a'', ''b'']\<rparr> =
   (Inl (HTTPException 500
          (StrOf (AttributeError
             ([CHR 0x27] @ ''NoneType'' @ [CHR 0x27] @ '' object has no attribute '' @
              [CHR 0x27] @ ''reports'' @ [CHR 0x27])))),
    memory_world\<lparr>MEMORY_REPORTS := [sample_saved ''a'' ''13.1'' ''normal'' 1704067200000000,
                                      sample_saved ''b'' ''11.2'' ''low'' 1704153600000000]\<rparr>)"
proof -
  let ?w = "memory_world\<lparr>MEMORY_REPORTS :=
              [sample_saved ''a'' ''13.1'' ''normal'' 1704067200000000,
               sample_saved ''b'' ''11.2'' ''low'' 1704153600000000]\<rparr>"
  have 1: "db ?w = None" by (simp add: memory_world_def)
  have 2: "2 \<le> length (report_ids \<lparr>report_ids = [''a'', ''b'']\<rparr>)" by simp
  from compare_reports_without_db [OF 1 2, of sample_env]
  show ?thesis by (simp add: no_attribute_def)
qed

text \<open>
  C5. A process without database holds two saved reports, \<open>a\<close> and \<open>b\<close>, that share the
  parameter Hemoglobin (13.1 normal, then 11.2 low). Reading either of them by its
  identifier succeeds, from the in-process collection. Comparing them is answered with
  status 500, and so is a comparison of which one identifier does not exist, where 404
  is expected: \<^verbatim>\<open>compare_reports\<close> does not branch on \<^verbatim>\<open>USE_MONGODB\<close> as the other
  handlers do. Only the test on the number of identifiers, which comes before the first
  lookup, answers as described (400). The same two reports held by a database are
  compared as described: 404 when one of the two identifiers is unknown, and otherwise
  one timeline for Hemoglobin with two entries, in the order in which the reports were
  found, each with the date, the value and the status of its report.
\<close>

theorem compare_reports_memory_mode:
  "fst (get_report sample_env memory_two ''a'') = Inr first_saved
   \<and> fst (get_report sample_env memory_two ''b'') = Inr second_saved
   \<and> fst (compare_reports sample_env memory_two \<lparr>report_ids = [''a'', ''b'']\<rparr>) =
       Inl (HTTPException 500 (StrOf (no_attribute PNone ''reports'')))
   \<and> fst (compare_reports sample_env memory_two \<lparr>report_ids = [''a'', ''zz'']\<rparr>) =
       Inl (HTTPException 500 (StrOf (no_attribute PNone ''reports'')))
   \<and> fst (compare_reports sample_env memory_two \<lparr>report_ids = [''a'']\<rparr>) =
       Inl (HTTPException 400 (Text ''Need at least 2 reports to compare''))
   \<and> fst (compare_reports sample_env mongo_two \<lparr>report_ids = [''a'', ''zz'']\<rparr>) =
       Inl (HTTPException 404 (Text ''Not enough reports found''))
   \<and> fst (compare_reports sample_env mongo_two \<lparr>report_ids = [''a'', ''b'']\<rparr>) =
       Inr \<lparr>reports = [report_dict sample_env first_saved, report_dict sample_env second_saved],
            parameter_trends =
              [(PStr ''Hemoglobin'',
                [PDict [(''date'', PStr ''2024-01-01T00:00:00''), (''value'', PStr ''13.1''),
                        (''status'', PStr ''normal'')],
                 PDict [(''date'', PStr ''2024-01-02T00:00:00''), (''value'', PStr ''11.2''),
                        (''status'', PStr ''low'')]])]\<rparr>"
  by (simp add: compare_reports_def find_one_def get_report_def add_report_def add_param_def
      trend_entry_def key_eq_def get_or_def dget_def dpop_def matches_id_def report_dict_def
      dump_report_def dump_parameter_def dump_opt_str_def mongo_two_def
      memory_two_def mongo_world_def memory_world_def sample_env_def sample_isoformat_def
      saved_defs sample_report_def sample_parameter_def Let_def)

section \<open>Properties of the persistence layer\<close>

text \<open>
  C1. When the durable backend is selected and the insert raises, saving a report
  returns the new SavedReport as a success and appends that same entity to the
  in-process collection. From then on, whenever the list operation takes its result
  from the in-process collection because the durable query fails, the result is that
  collection sorted, and it holds the entity.
\<close>

theorem save_report_fallback:
  assumes "USE_MONGODB w" and "db w = Some docs" and "db_error e = Some msg"
  shows "save_report e w report =
           (Inr \<lparr>saved_id = uuid4 e 0, report_data = report, saved_at = utcnow e\<rparr>,
            w\<lparr>MEMORY_REPORTS := MEMORY_REPORTS w @
                 [\<lparr>saved_id = uuid4 e 0, report_data = report, saved_at = utcnow e\<rparr>]\<rparr>)
       \<and> (\<forall>e' ex. mongo_reports e' docs = Inl ex \<longrightarrow>
             get_reports e' (snd (save_report e w report)) =
               (Inr (sorted_reverse saved_at (MEMORY_REPORTS w @
                  [\<lparr>saved_id = uuid4 e 0, report_data = report, saved_at = utcnow e\<rparr>])),
                snd (save_report e w report))
           \<and> \<lparr>saved_id = uuid4 e 0, report_data = report, saved_at = utcnow e\<rparr>
               \<in> set (sorted_reverse saved_at (MEMORY_REPORTS w @
                  [\<lparr>saved_id = uuid4 e 0, report_data = report, saved_at = utcnow e\<rparr>])))"
  using assms
  by (simp add: save_report_def get_reports_def set_sorted_reverse Let_def)

theorem save_report_fallback_witness:
  "save_report outage_env mongo_world (sample_report ''13.1'' ''normal'' 1704067200000000) =
     (Inr (sample_saved ''id-'' ''13.1'' ''normal'' 1704067200000000),
      mongo_world\<lparr>MEMORY_REPORTS := [sample_saved ''id-'' ''13.1'' ''normal'' 1704067200000000]\<rparr>)
   \<and> get_reports outage_env
       (mongo_world\<lparr>MEMORY_REPORTS := [sample_saved ''id-'' ''13.1'' ''normal'' 1704067200000000]\<rparr>) =
     (Inr [sample_saved ''id-'' ''13.1'' ''normal'' 1704067200000000],
      mongo_world\<lparr>MEMORY_REPORTS := [sample_saved ''id-'' ''13.1'' ''normal'' 1704067200000000]\<rparr>)"
proof -
  let ?rep = "sample_report ''13.1'' ''normal'' 1704067200000000"
  have 1: "USE_MONGODB mongo_world" by (simp add: mongo_world_def)
  have 2: "db mongo_world = Some []" by (simp add: mongo_world_def)
  have 3: "db_error outage_env = Some ''ServerSelectionTimeoutError''"
    by (simp add: outage_env_def)
  have 4: "mongo_reports outage_env [] = Inl (ServiceError ''ServerSelectionTimeoutError'')"
    by (simp add: mongo_reports_def outage_env_def)
  have 5: "uuid4 outage_env 0 = ''id-''" "utcnow outage_env = 1704067200000000"
    by (simp_all add: outage_env_def sample_env_def)
  let ?s = "\<lparr>saved_id = uuid4 outage_env 0, report_data = ?rep, saved_at = utcnow outage_env\<rparr>"
  note t = save_report_fallback [OF 1 2 3, of ?rep]
  from t have a: "save_report outage_env mongo_world ?rep =
      (Inr ?s, mongo_world\<lparr>MEMORY_REPORTS := MEMORY_REPORTS mongo_world @ [?s]\<rparr>)"
    by (rule conjunct1)
  from t 4 have b: "get_reports outage_env (snd (save_report outage_env mongo_world ?rep)) =
      (Inr (sorted_reverse saved_at (MEMORY_REPORTS mongo_world @ [?s])),
       snd (save_report outage_env mongo_world ?rep))"
    by blast
  from a b show ?thesis
    by (simp add: 5 sample_saved_def sorted_reverse_def mongo_world_def)
qed

text \<open>
  C8. The list operation never fails and leaves the state as it is: every call
  computes its result from the current state. When it is sourced from the in-process
  collection (no durable backend, or the durable query or a conversion raises), it
  returns all reports of that collection, sorted by \<open>saved_at\<close> descending. When it is
  sourced from the durable backend it returns at most 100 entries; for documents that
  \<open>save_report\<close> wrote (whose ISO text reads back as the same instant and is ordered as
  the instants are) these are the reports themselves, sorted by \<open>saved_at\<close> descending,
  none of them earlier than a report that is left out.
\<close>

theorem get_reports_sorted:
  "snd (get_reports e w) = w
 \<and> (\<exists>rs. fst (get_reports e w) = Inr rs)
 \<and> (\<not> USE_MONGODB w \<or> db w = None
      \<or> (\<exists>docs ex. db w = Some docs \<and> mongo_reports e docs = Inl ex) \<longrightarrow>
      fst (get_reports e w) = Inr (sorted_reverse saved_at (MEMORY_REPORTS w))
    \<and> mset (sorted_reverse saved_at (MEMORY_REPORTS w)) = mset (MEMORY_REPORTS w)
    \<and> sorted (rev (map saved_at (sorted_reverse saved_at (MEMORY_REPORTS w)))))
 \<and> (\<forall>docs rs. USE_MONGODB w \<and> db w = Some docs \<and> mongo_reports e docs = Inr rs \<longrightarrow>
      fst (get_reports e w) = Inr rs \<and> length rs \<le> 100)
 \<and> (\<forall>e0 srs. USE_MONGODB w \<and> db w = Some (map (report_dict e0) srs) \<and> db_error e = None
      \<and> (\<forall>s\<in>set srs. fromisoformat e (isoformat e0 (saved_at s)) = Some (saved_at s)
            \<and> fromisoformat e (isoformat e0 (created_at (report_data s))) =
                Some (created_at (report_data s)))
      \<and> (\<forall>s\<in>set srs. \<forall>s'\<in>set srs.
            isoformat e0 (saved_at s) \<le> isoformat e0 (saved_at s') \<longrightarrow> saved_at s \<le> saved_at s') \<longrightarrow>
      fst (get_reports e w) = Inr (take 100 (recent_first e0 srs))
    \<and> length (take 100 (recent_first e0 srs)) = min 100 (length srs)
    \<and> mset (recent_first e0 srs) = mset srs
    \<and> sorted (rev (map saved_at (take 100 (recent_first e0 srs))))
    \<and> (\<forall>s\<in>set (drop 100 (recent_first e0 srs)). \<forall>r\<in>set (take 100 (recent_first e0 srs)).
          saved_at s \<le> saved_at r))"
proof (intro conjI allI impI)
  show "snd (get_reports e w) = w"
    by (simp add: get_reports_def split: option.splits bool.splits sum.splits)
  show "\<exists>rs. fst (get_reports e w) = Inr rs"
    by (simp add: get_reports_def split: option.splits bool.splits sum.splits)
next
  assume "\<not> USE_MONGODB w \<or> db w = None
      \<or> (\<exists>docs ex. db w = Some docs \<and> mongo_reports e docs = Inl ex)"
  then show "fst (get_reports e w) = Inr (sorted_reverse saved_at (MEMORY_REPORTS w))"
    by (simp add: get_reports_memory)
next
  show "mset (sorted_reverse saved_at (MEMORY_REPORTS w)) = mset (MEMORY_REPORTS w)"
    by (rule sorted_reverse_props)
  show "sorted (rev (map saved_at (sorted_reverse saved_at (MEMORY_REPORTS w))))"
    by (rule sorted_reverse_props)
next
  fix docs rs
  assume h: "USE_MONGODB w \<and> db w = Some docs \<and> mongo_reports e docs = Inr rs"
  then show "fst (get_reports e w) = Inr rs" by (simp add: get_reports_durable)
  from h show "length rs \<le> 100" using mongo_reports_length by blast
next
  fix e0 srs
  assume h: "USE_MONGODB w \<and> db w = Some (map (report_dict e0) srs) \<and> db_error e = None
      \<and> (\<forall>s\<in>set srs. fromisoformat e (isoformat e0 (saved_at s)) = Some (saved_at s)
            \<and> fromisoformat e (isoformat e0 (created_at (report_data s))) =
                Some (created_at (report_data s)))
      \<and> (\<forall>s\<in>set srs. \<forall>s'\<in>set srs.
            isoformat e0 (saved_at s) \<le> isoformat e0 (saved_at s') \<longrightarrow> saved_at s \<le> saved_at s')"
  then have m: "mongo_reports e (map (report_dict e0) srs) = Inr (take 100 (recent_first e0 srs))"
    by (intro mongo_reports_written) auto
  with h show "fst (get_reports e w) = Inr (take 100 (recent_first e0 srs))"
    by (simp add: get_reports_durable)
  show "length (take 100 (recent_first e0 srs)) = min 100 (length srs)"
    by (simp add: recent_first_def min.commute)
  show "mset (recent_first e0 srs) = mset srs" by (simp add: recent_first_def)
  from h have s: "sorted (rev (map saved_at (recent_first e0 srs)))"
    by (intro recent_first_sorted) auto
  from sorted_rev_take [OF s, of 100]
  show "sorted (rev (map saved_at (take 100 (recent_first e0 srs))))"
    and "\<forall>s\<in>set (drop 100 (recent_first e0 srs)). \<forall>r\<in>set (take 100 (recent_first e0 srs)).
          saved_at s \<le> saved_at r"
    by blast+
qed

theorem get_reports_sorted_witness:
  "fst (get_reports sample_env memory_two) = Inr [second_saved, first_saved]
 \<and> sorted (rev (map saved_at [second_saved, first_saved]))
 \<and> fst (get_reports sample_env mongo_two) = Inr [second_saved, first_saved]
 \<and> snd (get_reports sample_env mongo_two) = mongo_two"
proof -
  let ?srs = "[first_saved, second_saved]"
  have iso: "isoformat sample_env 1704067200000000 = ''2024-01-01T00:00:00''"
    "isoformat sample_env 1704153600000000 = ''2024-01-02T00:00:00''"
    by (simp_all add: sample_env_def sample_isoformat_def)
  have ts: "saved_at first_saved = 1704067200000000" "saved_at second_saved = 1704153600000000"
    "created_at (report_data first_saved) = 1704067200000000"
    "created_at (report_data second_saved) = 1704153600000000"
    by (simp_all add: saved_defs sample_report_def)
  have fr: "fromisoformat sample_env ''2024-01-01T00:00:00'' = Some 1704067200000000"
    "fromisoformat sample_env ''2024-01-02T00:00:00'' = Some 1704153600000000"
    by (simp_all add: sample_env_def sample_fromisoformat_def)
  have m: "\<not> USE_MONGODB memory_two \<or> db memory_two = None
      \<or> (\<exists>docs ex. db memory_two = Some docs \<and> mongo_reports sample_env docs = Inl ex)"
    by (simp add: memory_two_def memory_world_def)
  have d: "USE_MONGODB mongo_two \<and> db mongo_two = Some (map (report_dict sample_env) ?srs)
      \<and> db_error sample_env = None
      \<and> (\<forall>s\<in>set ?srs. fromisoformat sample_env (isoformat sample_env (saved_at s)) = Some (saved_at s)
            \<and> fromisoformat sample_env (isoformat sample_env (created_at (report_data s))) =
                Some (created_at (report_data s)))
      \<and> (\<forall>s\<in>set ?srs. \<forall>s'\<in>set ?srs.
            isoformat sample_env (saved_at s) \<le> isoformat sample_env (saved_at s') \<longrightarrow>
            saved_at s \<le> saved_at s')"
    by (simp add: iso ts fr mongo_two_def mongo_world_def) (simp add: sample_env_def)
  note t = get_reports_sorted [of sample_env memory_two]
  note u = get_reports_sorted [of sample_env mongo_two]
  from t m have a: "fst (get_reports sample_env memory_two) =
      Inr (sorted_reverse saved_at (MEMORY_REPORTS memory_two))"
    and b: "sorted (rev (map saved_at (sorted_reverse saved_at (MEMORY_REPORTS memory_two))))"
    by blast+
  have sr: "sorted_reverse saved_at (MEMORY_REPORTS memory_two) = [second_saved, first_saved]"
    by (simp add: memory_two_def memory_world_def sorted_reverse_def ts)
  from u d have c: "fst (get_reports sample_env mongo_two) = Inr (take 100 (recent_first sample_env ?srs))"
    by blast
  have rf: "take 100 (recent_first sample_env ?srs) = [second_saved, first_saved]"
    by (simp add: recent_first_def ts iso)
  from u have e: "snd (get_reports sample_env mongo_two) = mongo_two" by blast
  from a b c e show ?thesis by (simp add: sr rf)
qed

text \<open>
  C9 (as amended). Take an identifier that exactly one report carries in the collection
  that the delete operation consults: the in-process collection when the durable backend
  is not selected, the database when it is selected and its calls succeed. Deleting it
  returns the success message, the collection then holds no report of that identifier
  while every other report is kept, and deleting it again returns 404 "Report not
  found" and changes nothing. A report that the save operation stored in the in-process
  collection because the insert into the selected durable backend raised is not found
  by the delete operation: as long as no document of the database carries its
  identifier, deleting it returns 404 when the call to the database succeeds and 500
  when that call raises, and the report stays in the in-process collection.
\<close>

theorem delete_report_twice:
  "(\<not> USE_MONGODB w \<and> length (filter (\<lambda>r. saved_id r = rid) (MEMORY_REPORTS w)) = 1 \<longrightarrow>
      (\<exists>w1. delete_report e w rid = (Inr deleted_message, w1)
         \<and> delete_report e' w1 rid = (Inl (HTTPException 404 (Text ''Report not found'')), w1)
         \<and> filter (\<lambda>r. saved_id r = rid) (MEMORY_REPORTS w1) = []
         \<and> filter (\<lambda>r. saved_id r \<noteq> rid) (MEMORY_REPORTS w1) =
             filter (\<lambda>r. saved_id r \<noteq> rid) (MEMORY_REPORTS w)
         \<and> db w1 = db w))
 \<and> (USE_MONGODB w \<and> db w = Some docs \<and> db_error e = None \<and> db_error e' = None
      \<and> length (filter (matches_id rid) docs) = 1 \<longrightarrow>
      (\<exists>w1 docs1. delete_report e w rid = (Inr deleted_message, w1)
         \<and> delete_report e' w1 rid = (Inl (HTTPException 404 (Text ''Report not found'')), w1)
         \<and> db w1 = Some docs1
         \<and> filter (matches_id rid) docs1 = []
         \<and> filter (\<lambda>d. \<not> matches_id rid d) docs1 = filter (\<lambda>d. \<not> matches_id rid d) docs
         \<and> MEMORY_REPORTS w1 = MEMORY_REPORTS w))
 \<and> (USE_MONGODB w \<and> db w = Some docs \<and> db_error e = Some msg
      \<and> filter (matches_id (uuid4 e 0)) docs = [] \<longrightarrow>
      (\<exists>saved w1. save_report e w report = (Inr saved, w1)
         \<and> saved \<in> set (MEMORY_REPORTS w1)
         \<and> (db_error e' = None \<longrightarrow>
               delete_report e' w1 (saved_id saved) =
                 (Inl (HTTPException 404 (Text ''Report not found'')), w1))
         \<and> (\<forall>msg'. db_error e' = Some msg' \<longrightarrow>
               delete_report e' w1 (saved_id saved) =
                 (Inl (HTTPException 500 (StrOf (ServiceError msg'))), w1))))"
proof (intro conjI impI)
  assume h: "\<not> USE_MONGODB w \<and> length (filter (\<lambda>r. saved_id r = rid) (MEMORY_REPORTS w)) = 1"
  let ?P = "\<lambda>r. saved_id r = rid"
  let ?w1 = "w\<lparr>MEMORY_REPORTS := remove_first ?P (MEMORY_REPORTS w)\<rparr>"
  note f = filter_once_removed [of ?P "MEMORY_REPORTS w"]
  from h have 1: "delete_report e w rid = (Inr deleted_message, ?w1)"
    using f(2) by (simp add: delete_report_def)
  from h have 2: "delete_report e' ?w1 rid =
      (Inl (HTTPException 404 (Text ''Report not found'')), ?w1)"
    using f(3) by (simp add: delete_report_def)
  from h have 3: "filter ?P (MEMORY_REPORTS ?w1) = []" using f(1) by simp
  have 4: "filter (\<lambda>r. saved_id r \<noteq> rid) (MEMORY_REPORTS ?w1) =
      filter (\<lambda>r. saved_id r \<noteq> rid) (MEMORY_REPORTS w)"
    using filter_not_remove_first [of ?P "MEMORY_REPORTS w"] by simp
  have 5: "db ?w1 = db w" by simp
  from 1 2 3 4 5
  show "\<exists>w1. delete_report e w rid = (Inr deleted_message, w1)
         \<and> delete_report e' w1 rid = (Inl (HTTPException 404 (Text ''Report not found'')), w1)
         \<and> filter (\<lambda>r. saved_id r = rid) (MEMORY_REPORTS w1) = []
         \<and> filter (\<lambda>r. saved_id r \<noteq> rid) (MEMORY_REPORTS w1) =
             filter (\<lambda>r. saved_id r \<noteq> rid) (MEMORY_REPORTS w)
         \<and> db w1 = db w"
    by blast
next
  assume h: "USE_MONGODB w \<and> db w = Some docs \<and> db_error e = None \<and> db_error e' = None
      \<and> length (filter (matches_id rid) docs) = 1"
  let ?P = "matches_id rid"
  let ?d1 = "remove_first ?P docs"
  let ?w1 = "w\<lparr>db := Some ?d1\<rparr>"
  note f = filter_once_removed [of ?P docs]
  from h have 1: "delete_report e w rid = (Inr deleted_message, ?w1)"
    using f(2) by (simp add: delete_report_def)
  from h have 2: "delete_report e' ?w1 rid =
      (Inl (HTTPException 404 (Text ''Report not found'')), ?w1)"
    using f(3) by (simp add: delete_report_def)
  from h have 3: "filter ?P ?d1 = []" using f(1) by simp
  have 4: "filter (\<lambda>d. \<not> ?P d) ?d1 = filter (\<lambda>d. \<not> ?P d) docs"
    by (rule filter_not_remove_first)
  have 5: "db ?w1 = Some ?d1" "MEMORY_REPORTS ?w1 = MEMORY_REPORTS w" by simp_all
  from 1 2 3 4 5
  show "\<exists>w1 docs1. delete_report e w rid = (Inr deleted_message, w1)
         \<and> delete_report e' w1 rid = (Inl (HTTPException 404 (Text ''Report not found'')), w1)
         \<and> db w1 = Some docs1
         \<and> filter (matches_id rid) docs1 = []
         \<and> filter (\<lambda>d. \<not> matches_id rid d) docs1 = filter (\<lambda>d. \<not> matches_id rid d) docs
         \<and> MEMORY_REPORTS w1 = MEMORY_REPORTS w"
    by blast
next
  assume h: "USE_MONGODB w \<and> db w = Some docs \<and> db_error e = Some msg
      \<and> filter (matches_id (uuid4 e 0)) docs = []"
  let ?s = "\<lparr>saved_id = uuid4 e 0, report_data = report, saved_at = utcnow e\<rparr>"
  let ?w1 = "w\<lparr>MEMORY_REPORTS := MEMORY_REPORTS w @ [?s]\<rparr>"
  from h have 1: "save_report e w report = (Inr ?s, ?w1)"
    by (simp add: save_report_def Let_def)
  have 2: "?s \<in> set (MEMORY_REPORTS ?w1)" by simp
  from h have f: "find (matches_id (uuid4 e 0)) docs = None"
    by (simp add: find_None_filter)
  from h f have 3: "db_error e' = None \<longrightarrow>
      delete_report e' ?w1 (saved_id ?s) =
        (Inl (HTTPException 404 (Text ''Report not found'')), ?w1)"
    by (simp add: delete_report_def)
  from h have 4: "\<forall>msg'. db_error e' = Some msg' \<longrightarrow>
      delete_report e' ?w1 (saved_id ?s) =
        (Inl (HTTPException 500 (StrOf (ServiceError msg'))), ?w1)"
    by (simp add: delete_report_def)
  from 1 2 3 4
  show "\<exists>saved w1. save_report e w report = (Inr saved, w1)
         \<and> saved \<in> set (MEMORY_REPORTS w1)
         \<and> (db_error e' = None \<longrightarrow>
               delete_report e' w1 (saved_id saved) =
                 (Inl (HTTPException 404 (Text ''Report not found'')), w1))
         \<and> (\<forall>msg'. db_error e' = Some msg' \<longrightarrow>
               delete_report e' w1 (saved_id saved) =
                 (Inl (HTTPException 500 (StrOf (ServiceError msg'))), w1))"
  proof (intro exI conjI)
    show "save_report e w report = (Inr ?s, ?w1)" by (fact 1)
    show "?s \<in> set (MEMORY_REPORTS ?w1)" by (fact 2)
    show "db_error e' = None \<longrightarrow>
      delete_report e' ?w1 (saved_id ?s) =
        (Inl (HTTPException 404 (Text ''Report not found'')), ?w1)" by (fact 3)
    show "\<forall>msg'. db_error e' = Some msg' \<longrightarrow>
      delete_report e' ?w1 (saved_id ?s) =
        (Inl (HTTPException 500 (StrOf (ServiceError msg'))), ?w1)" by (fact 4)
  qed
qed

theorem delete_report_twice_witness:
  "fst (delete_report sample_env memory_two ''a'') = Inr deleted_message
 \<and> delete_report sample_env (snd (delete_report sample_env memory_two ''a'')) ''a'' =
     (Inl (HTTPException 404 (Text ''Report not found'')),
      snd (delete_report sample_env memory_two ''a''))
 \<and> MEMORY_REPORTS (snd (delete_report sample_env memory_two ''a'')) = [second_saved]
 \<and> fst (delete_report sample_env mongo_two ''a'') = Inr deleted_message
 \<and> delete_report sample_env (snd (delete_report sample_env mongo_two ''a'')) ''a'' =
     (Inl (HTTPException 404 (Text ''Report not found'')),
      snd (delete_report sample_env mongo_two ''a''))
 \<and> db (snd (delete_report sample_env mongo_two ''a'')) = Some [report_dict sample_env second_saved]
 \<and> fst (save_report outage_env mongo_world (sample_report ''13.1'' ''normal'' 1704067200000000)) =
     Inr (sample_saved ''id-'' ''13.1'' ''normal'' 1704067200000000)
 \<and> delete_report sample_env
       (snd (save_report outage_env mongo_world (sample_report ''13.1'' ''normal'' 1704067200000000)))
       ''id-'' =
     (Inl (HTTPException 404 (Text ''Report not found'')),
      snd (save_report outage_env mongo_world (sample_report ''13.1'' ''normal'' 1704067200000000)))
 \<and> delete_report outage_env
       (snd (save_report outage_env mongo_world (sample_report ''13.1'' ''normal'' 1704067200000000)))
       ''id-'' =
     (Inl (HTTPException 500 (StrOf (ServiceError ''ServerSelectionTimeoutError''))),
      snd (save_report outage_env mongo_world (sample_report ''13.1'' ''normal'' 1704067200000000)))"
proof -
  have m: "\<not> USE_MONGODB memory_two
      \<and> length (filter (\<lambda>r. saved_id r = ''a'') (MEMORY_REPORTS memory_two)) = 1"
    by (simp add: memory_two_def memory_world_def saved_defs)
  have d: "USE_MONGODB mongo_two
      \<and> db mongo_two = Some [report_dict sample_env first_saved, report_dict sample_env second_saved]
      \<and> db_error sample_env = None \<and> db_error sample_env = None
      \<and> length (filter (matches_id ''a'')
           [report_dict sample_env first_saved, report_dict sample_env second_saved]) = 1"
    by (simp add: mongo_two_def mongo_world_def saved_defs sample_env_def report_dict_def
        matches_id_def dget_def)
  note t = delete_report_twice [where w = memory_two and rid = "''a''" and e = sample_env
      and e' = sample_env, THEN conjunct1]
  note u = delete_report_twice [where w = mongo_two and rid = "''a''" and e = sample_env
      and e' = sample_env
      and docs = "[report_dict sample_env first_saved, report_dict sample_env second_saved]",
      THEN conjunct2, THEN conjunct1]
  from t m obtain w1 where
    a: "delete_report sample_env memory_two ''a'' = (Inr deleted_message, w1)"
    and b: "delete_report sample_env w1 ''a'' =
      (Inl (HTTPException 404 (Text ''Report not found'')), w1)"
    by blast
  from u d obtain w2 where
    a2: "delete_report sample_env mongo_two ''a'' = (Inr deleted_message, w2)"
    and b2: "delete_report sample_env w2 ''a'' =
      (Inl (HTTPException 404 (Text ''Report not found'')), w2)"
    by blast
  have c: "MEMORY_REPORTS (snd (delete_report sample_env memory_two ''a'')) = [second_saved]"
    by (simp add: delete_report_def memory_two_def memory_world_def saved_defs)
  have c2: "db (snd (delete_report sample_env mongo_two ''a'')) =
      Some [report_dict sample_env second_saved]"
    by (simp add: delete_report_def mongo_two_def mongo_world_def saved_defs sample_env_def
        report_dict_def matches_id_def dget_def)
  let ?R = "sample_report ''13.1'' ''normal'' 1704067200000000"
  have o: "USE_MONGODB mongo_world \<and> db mongo_world = Some []
      \<and> db_error outage_env = Some ''ServerSelectionTimeoutError''
      \<and> filter (matches_id (uuid4 outage_env 0)) [] = []"
    by (simp add: mongo_world_def outage_env_def)
  note v = delete_report_twice [where w = mongo_world and e = outage_env and e' = sample_env
      and docs = "[]" and msg = "''ServerSelectionTimeoutError''" and report = ?R,
      THEN conjunct2, THEN conjunct2]
  note x = delete_report_twice [where w = mongo_world and e = outage_env and e' = outage_env
      and docs = "[]" and msg = "''ServerSelectionTimeoutError''" and report = ?R,
      THEN conjunct2, THEN conjunct2]
  have sv: "save_report outage_env mongo_world ?R =
      (Inr (sample_saved ''id-'' ''13.1'' ''normal'' 1704067200000000),
       mongo_world\<lparr>MEMORY_REPORTS := [sample_saved ''id-'' ''13.1'' ''normal'' 1704067200000000]\<rparr>)"
    by (simp add: save_report_def outage_env_def sample_env_def mongo_world_def sample_saved_def
        Let_def)
  have id: "saved_id (sample_saved ''id-'' ''13.1'' ''normal'' 1704067200000000) = ''id-''"
    by (simp add: sample_saved_def)
  have e1: "db_error sample_env = None" by (simp add: sample_env_def)
  have e2: "db_error outage_env = Some ''ServerSelectionTimeoutError''"
    by (simp add: outage_env_def)
  from v o sv e1 id have d3: "delete_report sample_env
       (mongo_world\<lparr>MEMORY_REPORTS := [sample_saved ''id-'' ''13.1'' ''normal'' 1704067200000000]\<rparr>)
       ''id-'' =
     (Inl (HTTPException 404 (Text ''Report not found'')),
      mongo_world\<lparr>MEMORY_REPORTS := [sample_saved ''id-'' ''13.1'' ''normal'' 1704067200000000]\<rparr>)"
    by auto
  from x o sv e2 id have d4: "delete_report outage_env
       (mongo_world\<lparr>MEMORY_REPORTS := [sample_saved ''id-'' ''13.1'' ''normal'' 1704067200000000]\<rparr>)
       ''id-'' =
     (Inl (HTTPException 500 (StrOf (ServiceError ''ServerSelectionTimeoutError''))),
      mongo_world\<lparr>MEMORY_REPORTS := [sample_saved ''id-'' ''13.1'' ''normal'' 1704067200000000]\<rparr>)"
    by auto
  from a b a2 b2 c c2 d3 d4 show ?thesis by (simp add: sv)
qed

text \<open>
  The claim as stated fails for a report that was stored in the in-process collection
  because the insert into the selected durable backend failed: the delete operation
  consults the database only, and the first delete already returns 404.
\<close>

theorem delete_report_misses_fallback:
  "save_report outage_env mongo_world (sample_report ''13.1'' ''normal'' 1704067200000000) =
     (Inr (sample_saved ''id-'' ''13.1'' ''normal'' 1704067200000000),
      mongo_world\<lparr>MEMORY_REPORTS := [sample_saved ''id-'' ''13.1'' ''normal'' 1704067200000000]\<rparr>)
 \<and> delete_report sample_env
      (mongo_world\<lparr>MEMORY_REPORTS := [sample_saved ''id-'' ''13.1'' ''normal'' 1704067200000000]\<rparr>)
      ''id-'' =
     (Inl (HTTPException 404 (Text ''Report not found'')),
      mongo_world\<lparr>MEMORY_REPORTS := [sample_saved ''id-'' ''13.1'' ''normal'' 1704067200000000]\<rparr>)"
  by (simp add: save_report_def delete_report_def outage_env_def sample_env_def mongo_world_def
      sample_saved_def Let_def)

end
